theory Spec2Isabelle
  imports Complex_Main "HOL-Library.AList"
begin

section \<open>Exceptions and the pandas/numpy primitives the pipeline calls\<close>

text \<open>
  The Python exceptions that the modelled operations can raise. A function that can raise
  returns \<open>error + 'a\<close>, with \<open>Inl\<close> for the exception.
\<close>

datatype error = KeyError | IndexError | ValueError | InvalidIndexError

text \<open>\<open>d[key]\<close> on a dictionary: \<open>KeyError\<close> when the key is absent.\<close>

definition dict_getitem :: "('k \<rightharpoonup> 'v) \<Rightarrow> 'k \<Rightarrow> error + 'v" where
  "dict_getitem d k = (case d k of None \<Rightarrow> Inl KeyError | Some v \<Rightarrow> Inr v)"

text \<open>
  \<open>array[i]\<close> on a list or on the first axis of a numpy array: a negative index counts
  from the end, an index out of range raises \<open>IndexError\<close>.
\<close>

definition array_getitem :: "'a list \<Rightarrow> int \<Rightarrow> error + 'a" where
  "array_getitem array i =
     (if 0 \<le> i \<and> i < int (length array) then Inr (array ! nat i)
      else if i < 0 \<and> - int (length array) \<le> i then Inr (array ! nat (int (length array) + i))
      else Inl IndexError)"

text \<open>
  \<open>series.apply(f)\<close>: \<open>f\<close> is called on the elements in order; the first exception
  leaves \<open>apply\<close> unhandled.
\<close>

fun series_apply :: "('a \<Rightarrow> error + 'b) \<Rightarrow> 'a list \<Rightarrow> error + 'b list" where
  "series_apply f [] = Inr []"
| "series_apply f (x # xs) =
     (case f x of
        Inl e \<Rightarrow> Inl e
      | Inr y \<Rightarrow> (case series_apply f xs of Inl e \<Rightarrow> Inl e | Inr ys \<Rightarrow> Inr (y # ys)))"

section \<open>Data frames\<close>

text \<open>
  A pandas \<open>DataFrame\<close>: the row labels and the columns in their order, every column a
  list of cells, one per row. A missing cell (NaN) of a frame with cells of type \<open>'v\<close>
  is \<open>None\<close> in a frame over \<open>'v option\<close>. Column labels are strings.
\<close>

record 'c dataframe =
  index :: "int list"
  columns :: "(string \<times> 'c list) list"

definition nrows :: "'c dataframe \<Rightarrow> nat" where
  "nrows df = length (index df)"

definition RangeIndex :: "nat \<Rightarrow> int list" where
  "RangeIndex n = map int [0..<n]"

text \<open>\<open>pd.DataFrame()\<close>\<close>

definition empty_frame :: "'c dataframe" where
  "empty_frame = \<lparr>index = [], columns = []\<rparr>"

text \<open>
  \<open>pd.DataFrame(d)\<close> for a dictionary of lists: the keys become the columns in insertion
  order, the index is \<open>0..len-1\<close>; lists of different lengths raise \<open>ValueError\<close>.
\<close>

definition DataFrame_of_dict :: "(string \<times> 'c list) list \<Rightarrow> error + 'c dataframe" where
  "DataFrame_of_dict d =
     (case d of
        [] \<Rightarrow> Inr empty_frame
      | (_, col) # _ \<Rightarrow>
          if list_all (\<lambda>(_, c). length c = length col) d
          then Inr \<lparr>index = RangeIndex (length col), columns = d\<rparr>
          else Inl ValueError)"

text \<open>\<open>df[name]\<close>: the column, \<open>KeyError\<close> when there is none of that name.\<close>

definition frame_getitem :: "'c dataframe \<Rightarrow> string \<Rightarrow> error + 'c list" where
  "frame_getitem df name = dict_getitem (map_of (columns df)) name"

text \<open>
  \<open>df[name] = values\<close> for an array that has one cell per row of the frame (as the
  array assigned in this program has), in a frame with at most one column of that name:
  an existing column is replaced in place, a new one is appended. A frame without rows
  takes the index \<open>0..len-1\<close> of the array.
\<close>

definition frame_setitem :: "'c dataframe \<Rightarrow> string \<Rightarrow> 'c list \<Rightarrow> 'c dataframe" where
  "frame_setitem df name vals =
     \<lparr>index = (if index df = [] then RangeIndex (length vals) else index df),
      columns = AList.update name vals (columns df)\<rparr>"

text \<open>
  \<open>df[name] = series\<close> for a series with the row labels \<open>labels\<close>: a frame without rows
  takes the row labels of the series; a frame that has rows keeps its own, and the
  series, which in this program is over the same labels, fills the column.
\<close>

definition frame_setitem_series ::
  "'c dataframe \<Rightarrow> string \<Rightarrow> int list \<Rightarrow> 'c list \<Rightarrow> 'c dataframe" where
  "frame_setitem_series df name labels vals =
     \<lparr>index = (if index df = [] then labels else index df),
      columns = AList.update name vals (columns df)\<rparr>"

text \<open>
  \<open>df.sample(n)\<close>: \<open>ValueError\<close> for a negative \<open>n\<close> and for an \<open>n\<close> larger than the
  number of rows (sampling is without replacement). Otherwise the rows at the positions
  the random generator drew, in the order drawn, with their labels. The draw is an
  argument of the model: \<open>n\<close> distinct positions below the number of rows.
\<close>

definition is_draw :: "nat \<Rightarrow> int \<Rightarrow> nat list \<Rightarrow> bool" where
  "is_draw population n draw \<longleftrightarrow>
     int (length draw) = n \<and> distinct draw \<and> list_all (\<lambda>p. p < population) draw"

definition sample :: "'c dataframe \<Rightarrow> int \<Rightarrow> nat list \<Rightarrow> error + 'c dataframe" where
  "sample df n draw =
     (if n < 0 \<or> int (nrows df) < n then Inl ValueError
      else Inr \<lparr>index = map (\<lambda>p. index df ! p) draw,
                columns = map (\<lambda>(name, col). (name, map (\<lambda>p. col ! p) draw)) (columns df)\<rparr>)"

text \<open>\<open>df.reset_index(drop=True)\<close>\<close>

definition reset_index :: "'c dataframe \<Rightarrow> 'c dataframe" where
  "reset_index df = df\<lparr>index := RangeIndex (nrows df)\<rparr>"

text \<open>
  \<open>pd.concat([a, b], axis=1)\<close> for two frames over the same index (here both
  \<open>0..n-1\<close> after \<open>reset_index\<close>): the rows are paired by label, the columns of \<open>b\<close>
  follow those of \<open>a\<close>.
\<close>

definition concat_axis1 :: "'c dataframe \<Rightarrow> 'c dataframe \<Rightarrow> 'c dataframe" where
  "concat_axis1 a b = \<lparr>index = index a, columns = columns a @ columns b\<rparr>"

text \<open>
  \<open>pd.concat([a, b])\<close>: the rows of \<open>b\<close> below the rows of \<open>a\<close>. When the column
  labels of each frame are unique, the result is over the union of the columns (those of
  \<open>a\<close> first), and a column that a frame lacks is NaN in its rows. When a frame has a
  column label twice, the two frames must have the same labels in the same order, and
  the columns are joined by position; otherwise pandas cannot align the columns and
  raises \<open>InvalidIndexError\<close>.
\<close>

definition column_or_nan :: "'v option dataframe \<Rightarrow> string \<Rightarrow> 'v option list" where
  "column_or_nan df name =
     (case map_of (columns df) name of Some col \<Rightarrow> col | None \<Rightarrow> replicate (nrows df) None)"

definition concat_union :: "'v option dataframe \<Rightarrow> 'v option dataframe \<Rightarrow> 'v option dataframe" where
  "concat_union a b =
     (let names = map fst (columns a) @
                  filter (\<lambda>name. name \<notin> set (map fst (columns a))) (map fst (columns b))
      in \<lparr>index = index a @ index b,
          columns = map (\<lambda>name. (name, column_or_nan a name @ column_or_nan b name)) names\<rparr>)"

definition concat_axis0 ::
  "'v option dataframe \<Rightarrow> 'v option dataframe \<Rightarrow> error + 'v option dataframe" where
  "concat_axis0 a b =
     (if distinct (map fst (columns a)) \<and> distinct (map fst (columns b))
      then Inr (concat_union a b)
      else if map fst (columns a) = map fst (columns b)
      then Inr \<lparr>index = index a @ index b,
                columns = map2 (\<lambda>(name, col) (_, col'). (name, col @ col'))
                            (columns a) (columns b)\<rparr>
      else Inl InvalidIndexError)"

section \<open>The sampled data set (dataset\_class.py)\<close>

text \<open>
  The attributes of \<open>DataSet\<close>. \<open>dataset\<close> is \<open>None\<close> until \<open>get_sample\<close> has stored a
  frame (the constructor stores the class \<open>pd.DataFrame\<close> itself there, not a frame).
\<close>

record 'v DataSet =
  preprocessed_dataframe :: "'v option dataframe"
  preprocessed_source :: "'v option dataframe"
  preprocessed_target :: "'v option dataframe"
  dataset :: "'v option dataframe option"

text \<open>
  \<open>get_sample(n)\<close>, with the three draws of the three \<open>sample\<close> calls. The column
  assigned to \<open>Translation\<close> is \<open>np.zeros((shape[0], 1), dtype=np.int8)\<close>: one 0 per row.
  The last \<open>pd.concat\<close> raises when the source and the target frame share a column label
  (the mismatched sample then has that label twice) and the labels of the two samples
  differ.
\<close>

definition get_sample ::
  "'v::zero DataSet \<Rightarrow> int \<Rightarrow> nat list \<Rightarrow> nat list \<Rightarrow> nat list \<Rightarrow> error + 'v DataSet" where
  "get_sample self n draw_right draw_source draw_target =
     (case sample (preprocessed_dataframe self) n draw_right of
        Inl e \<Rightarrow> Inl e
      | Inr right \<Rightarrow>
     (case sample (preprocessed_source self) n draw_source of
        Inl e \<Rightarrow> Inl e
      | Inr source \<Rightarrow>
     (case sample (preprocessed_target self) n draw_target of
        Inl e \<Rightarrow> Inl e
      | Inr target \<Rightarrow>
          (let random_sample_right = reset_index right;
               random_sample_wrong = concat_axis1 (reset_index source) (reset_index target);
               random_sample_wrong = frame_setitem random_sample_wrong ''Translation''
                                       (replicate (nrows random_sample_wrong) (Some 0))
           in (case concat_axis0 random_sample_right random_sample_wrong of
                 Inl e \<Rightarrow> Inl e
               | Inr both \<Rightarrow> Inr (self\<lparr>dataset := Some (reset_index both)\<rparr>))))))"

section \<open>Feature generation (feature\_generation\_class.py)\<close>

text \<open>
  The three functions imported from \<open>src.features.sentence_based\<close>. That module is not
  part of the sources at hand, so the functions are parameters of the model: any three
  functions from series to a series over the row labels of their arguments.
\<close>

record 'c sentence_based =
  difference_numerical :: "'c list \<Rightarrow> 'c list \<Rightarrow> 'c list"
  relative_difference_numerical :: "'c list \<Rightarrow> 'c list \<Rightarrow> 'c list"
  normalized_difference_numerical :: "'c list \<Rightarrow> 'c list \<Rightarrow> 'c list \<Rightarrow> 'c list \<Rightarrow> 'c list"

record 'c FeatureGeneration =
  preprocessed_dataset :: "'c dataframe"
  feature_dataframe :: "'c dataframe"
  feature_difference_list :: "string list"

text \<open>The list that \<open>__init__\<close> stores in \<open>feature_difference_list\<close>.\<close>

definition initial_feature_difference_list :: "string list" where
  "initial_feature_difference_list =
     [''number_punctuations_total'', ''number_words'',
      ''number_unique_words'', ''number_!'', ''number_'' @ [CHR 0x22],
      ''number_#'', ''number_$'', ''number_%'',
      ''number_&'', ''number_'' @ [CHR 0x27], ''number_('',
      ''number_)'', ''number_*'', ''number_+'',
      ''number_,'', ''number_-'', ''number_.'',
      ''number_/'', ''number_:'', ''number_;'',
      ''number_<'', ''number_='', ''number_>'',
      ''number_?'', ''number_@'', ''number_['',
      ''number_'' @ [CHR 0x5C], ''number_]'', ''number_^'',
      ''number__'', ''number_`'', ''number_{'',
      ''number_|'', ''number_}'', ''number_~'',
      ''number_characters'', ''characters_avg'',
      ''number_ADJ'', ''number_ADP'',
      ''number_ADV'', ''number_AUX'', ''number_CONJ'',
      ''number_CCONJ'', ''number_DET'', ''number_INTJ'',
      ''number_NOUN'', ''number_NUM'', ''number_PRT'',
      ''number_PRON'', ''number_PROPN'', ''number_SCONJ'',
      ''number_SYM'', ''number_VERB'', ''number_X'',
      ''number_Pres'', ''number_Past'', ''number_'',
      ''score_polarity'', ''score_subjectivity'',
      ''number_stopwords'']"

definition FeatureGeneration_init :: "'c dataframe \<Rightarrow> 'c FeatureGeneration" where
  "FeatureGeneration_init ds =
     \<lparr>preprocessed_dataset = ds,
      feature_dataframe = empty_frame,
      feature_difference_list = initial_feature_difference_list\<rparr>"

text \<open>\<open>a + b\<close> on two columns of one frame: cell by cell.\<close>

definition series_add :: "'c::plus list \<Rightarrow> 'c list \<Rightarrow> 'c list" where
  "series_add a b = map2 (+) a b"

text \<open>
  The body of the \<open>for\<close> loop of \<open>feature_generation\<close> for one \<open>feature\<close>: the column
  lookups in the order the statements make them (a missing column raises \<open>KeyError\<close>),
  and the three assignments to \<open>feature_dataframe\<close>.
\<close>

definition feature_step ::
  "'c::plus sentence_based \<Rightarrow> 'c dataframe \<Rightarrow> string \<Rightarrow> 'c dataframe \<Rightarrow> error + 'c dataframe" where
  "feature_step sb ds feature fd =
     (case frame_getitem ds (feature @ ''_source'') of
        Inl e \<Rightarrow> Inl e
      | Inr src \<Rightarrow>
     (case frame_getitem ds (feature @ ''_target'') of
        Inl e \<Rightarrow> Inl e
      | Inr tgt \<Rightarrow>
     (let fd = frame_setitem_series fd (feature @ ''_difference'') (index ds)
                 (difference_numerical sb src tgt);
          fd = frame_setitem_series fd (feature @ ''_difference_relative'') (index ds)
                 (relative_difference_numerical sb src tgt)
      in
     (case frame_getitem ds ''number_punctuations_total_source'' of
        Inl e \<Rightarrow> Inl e
      | Inr punctuations_source \<Rightarrow>
     (case frame_getitem ds ''number_words_source'' of
        Inl e \<Rightarrow> Inl e
      | Inr words_source \<Rightarrow>
     (case frame_getitem ds ''number_punctuations_total_target'' of
        Inl e \<Rightarrow> Inl e
      | Inr punctuations_target \<Rightarrow>
     (case frame_getitem ds ''number_words_target'' of
        Inl e \<Rightarrow> Inl e
      | Inr words_target \<Rightarrow>
          Inr (frame_setitem_series fd (feature @ ''_difference_normalized'') (index ds)
                 (normalized_difference_numerical sb src tgt
                    (series_add punctuations_source words_source)
                    (series_add punctuations_target words_target))))))))))"

fun feature_loop ::
  "'c::plus sentence_based \<Rightarrow> 'c dataframe \<Rightarrow> string list \<Rightarrow> 'c dataframe \<Rightarrow> error + 'c dataframe" where
  "feature_loop sb ds [] fd = Inr fd"
| "feature_loop sb ds (feature # rest) fd =
     (case feature_step sb ds feature fd of
        Inl e \<Rightarrow> Inl e
      | Inr fd' \<Rightarrow> feature_loop sb ds rest fd')"

definition feature_generation ::
  "'c::plus sentence_based \<Rightarrow> 'c FeatureGeneration \<Rightarrow> error + 'c FeatureGeneration" where
  "feature_generation sb self =
     (case feature_loop sb (preprocessed_dataset self) (feature_difference_list self)
             (feature_dataframe self) of
        Inl e \<Rightarrow> Inl e
      | Inr fd \<Rightarrow>
     (case frame_getitem (preprocessed_dataset self) ''Translation'' of
        Inl e \<Rightarrow> Inl e
      | Inr translation_column \<Rightarrow>
          Inr (self\<lparr>feature_dataframe :=
                     frame_setitem_series fd ''Translation'' (index (preprocessed_dataset self))
                       translation_column\<rparr>)))"

section \<open>Text statistics (preprocess\_data.py)\<close>

text \<open>Python's \<open>string.punctuation\<close>: the 32 ASCII punctuation characters.\<close>

definition punctuation :: string where
  "punctuation =
     ''!'' @ [CHR 0x22] @ ''#$%&'' @ [CHR 0x27] @ ''()*+,-./:;<=>?@['' @ [CHR 0x5C] @ '']^_`{|}~''"

text \<open>
  \<open>list_pm\<close> of \<open>number_punctuations_total\<close>: \<open>list(string.punctuation)\<close>, then
  \<open>remove('.')\<close> (the first occurrence), then \<open>append('...')\<close>.
\<close>

definition list_pm :: "string list" where
  "list_pm = remove1 ''.'' (map (\<lambda>c. [c]) punctuation) @ [''...'']"

definition number_punctuations_total :: "string list list \<Rightarrow> nat list" where
  "number_punctuations_total sentence_vector =
     map (\<lambda>sentence. length (filter (\<lambda>word. word \<in> set list_pm) sentence)) sentence_vector"

text \<open>
  The values of a float64 series: the finite numbers (floating-point rounding is not
  modelled, a finite value is a real number), the two infinities and NaN.
\<close>

datatype float64 = Finite real | PosInf | NegInf | NaN

text \<open>
  \<open>c / w\<close> on two count series (true division, element by element): a nonzero count
  divided by zero is a signed infinity, \<open>0 / 0\<close> is NaN.
\<close>

definition true_divide :: "int \<Rightarrow> int \<Rightarrow> float64" where
  "true_divide c w =
     (if w \<noteq> 0 then Finite (real_of_int c / real_of_int w)
      else if c > 0 then PosInf
      else if c < 0 then NegInf
      else NaN)"

text \<open>\<open>series.replace(to_replace, value)\<close>; pandas matches NaN with NaN here.\<close>

definition replace :: "float64 \<Rightarrow> float64 \<Rightarrow> float64 list \<Rightarrow> float64 list" where
  "replace to_replace v series = map (\<lambda>x. if x = to_replace then v else x) series"

text \<open>\<open>np.log(0)\<close> is \<open>-inf\<close>.\<close>

definition np_log_0 :: float64 where
  "np_log_0 = NegInf"

text \<open>
  The two series are divided position by position, as pandas does for two series over
  the same index.
\<close>

definition average_characters :: "int list \<Rightarrow> int list \<Rightarrow> float64 list" where
  "average_characters character_vector word_vector =
     replace np_log_0 (Finite 0)
       (replace PosInf (Finite 0)
          (replace NaN (Finite 0)
             (map2 true_divide character_vector word_vector)))"

section \<open>Embeddings (preprocess\_data.py)\<close>

text \<open>
  \<open>np.vstack\<close> of a sequence of one-dimensional arrays: \<open>ValueError\<close> when the
  sequence is empty or the arrays differ in length.
\<close>

definition vstack :: "real list list \<Rightarrow> error + real list list" where
  "vstack arrays =
     (case arrays of
        [] \<Rightarrow> Inl ValueError
      | a # _ \<Rightarrow> if list_all (\<lambda>b. length b = length a) arrays then Inr arrays else Inl ValueError)"

text \<open>
  The exponent range of float64. A result whose magnitude reaches
  \<open>2^1024 - 2^970\<close> rounds to an infinity, a result whose magnitude is at most
  \<open>2^-1075\<close> rounds to 0. Rounding of the significand is not modelled: a result within
  the range is the real number itself.
\<close>

definition float64_overflow :: real where
  "float64_overflow = 2 ^ 1024 - 2 ^ 970"

definition float64_underflow :: real where
  "float64_underflow = 1 / 2 ^ 1075"

definition round_float64 :: "real \<Rightarrow> float64" where
  "round_float64 x =
     (if float64_overflow \<le> x then PosInf
      else if x \<le> - float64_overflow then NegInf
      else if \<bar>x\<bar> \<le> float64_underflow then Finite 0
      else Finite x)"

text \<open>The float64 operations that \<open>normalize_array\<close> uses.\<close>

definition float64_add :: "float64 \<Rightarrow> float64 \<Rightarrow> float64" where
  "float64_add a b =
     (case (a, b) of
        (Finite x, Finite y) \<Rightarrow> round_float64 (x + y)
      | (NaN, _) \<Rightarrow> NaN
      | (_, NaN) \<Rightarrow> NaN
      | (PosInf, NegInf) \<Rightarrow> NaN
      | (NegInf, PosInf) \<Rightarrow> NaN
      | (PosInf, _) \<Rightarrow> PosInf
      | (_, PosInf) \<Rightarrow> PosInf
      | (NegInf, _) \<Rightarrow> NegInf
      | (_, NegInf) \<Rightarrow> NegInf)"

definition float64_sqrt :: "float64 \<Rightarrow> float64" where
  "float64_sqrt a =
     (case a of
        Finite x \<Rightarrow> if x < 0 then NaN else Finite (sqrt x)
      | PosInf \<Rightarrow> PosInf
      | NegInf \<Rightarrow> NaN
      | NaN \<Rightarrow> NaN)"

definition float64_divide :: "real \<Rightarrow> float64 \<Rightarrow> float64" where
  "float64_divide x v =
     (case v of
        Finite y \<Rightarrow> if y \<noteq> 0 then round_float64 (x / y)
                    else if 0 < x then PosInf else if x < 0 then NegInf else NaN
      | PosInf \<Rightarrow> Finite 0
      | NegInf \<Rightarrow> Finite 0
      | NaN \<Rightarrow> NaN)"

text \<open>
  \<open>normalize_array\<close> on an array of finite float64 values:
  \<open>np.sqrt(np.sum(np.square(array), axis=1))\<close> for every row, then
  \<open>norms[norms == 0] = 1\<close>, then every row divided by its entry of \<open>norms\<close>.
\<close>

definition row_norm :: "real list \<Rightarrow> float64" where
  "row_norm row =
     float64_sqrt (foldl float64_add (Finite 0) (map (\<lambda>x. round_float64 (x * x)) row))"

definition norms :: "real list list \<Rightarrow> float64 list" where
  "norms array = map (\<lambda>v. if v = Finite 0 then Finite 1 else v) (map row_norm array)"

definition normalize_array :: "real list list \<Rightarrow> float64 list list" where
  "normalize_array array = map2 (\<lambda>row v. map (\<lambda>x. float64_divide x v) row) array (norms array)"



text \<open>
  \<open>load_embeddings\<close>, given the two unpickled objects (reading the files is outside the
  model).
\<close>

definition load_embeddings ::
  "real list list \<Rightarrow> (string \<rightharpoonup> int) \<Rightarrow> error + (float64 list list \<times> (string \<rightharpoonup> int))" where
  "load_embeddings embedding_array embedding_dictionary =
     (case vstack embedding_array of
        Inl e \<Rightarrow> Inl e
      | Inr stacked \<Rightarrow> Inr (normalize_array stacked, embedding_dictionary))"

text \<open>
  \<open>token_list_embedding\<close> of \<open>word_embeddings\<close>: the loop over the token list. The test
  \<open>if embedding_dictionary.get(token)\<close> is Python truthiness of the looked-up index:
  false for a missing token (\<open>None\<close>) and false for the index 0.
  \<open>word_embedding_dictionary\<close> is a dictionary in insertion order.
\<close>

fun token_list_embedding_loop ::
  "real list list \<Rightarrow> (string \<rightharpoonup> int) \<Rightarrow> string list \<Rightarrow> (string \<times> real list) list \<Rightarrow>
     error + (string \<times> real list) list" where
  "token_list_embedding_loop embedding_array embedding_dictionary [] word_embedding_dictionary =
     Inr word_embedding_dictionary"
| "token_list_embedding_loop embedding_array embedding_dictionary (token # rest)
     word_embedding_dictionary =
     (case embedding_dictionary token of
        None \<Rightarrow> token_list_embedding_loop embedding_array embedding_dictionary rest
                  word_embedding_dictionary
      | Some i \<Rightarrow>
          if i = 0
          then token_list_embedding_loop embedding_array embedding_dictionary rest
                 word_embedding_dictionary
          else (case array_getitem embedding_array i of
                  Inl e \<Rightarrow> Inl e
                | Inr v \<Rightarrow> token_list_embedding_loop embedding_array embedding_dictionary rest
                             (AList.update token v word_embedding_dictionary)))"

definition token_list_embedding ::
  "real list list \<Rightarrow> (string \<rightharpoonup> int) \<Rightarrow> string list \<Rightarrow> error + real dataframe" where
  "token_list_embedding embedding_array embedding_dictionary token_list =
     (case token_list_embedding_loop embedding_array embedding_dictionary token_list [] of
        Inl e \<Rightarrow> Inl e
      | Inr word_embedding_dictionary \<Rightarrow> DataFrame_of_dict word_embedding_dictionary)"

definition word_embeddings ::
  "string list list \<Rightarrow> real list list \<Rightarrow> (string \<rightharpoonup> int) \<Rightarrow> error + real dataframe list" where
  "word_embeddings token_vector embedding_array embedding_dictionary =
     series_apply (token_list_embedding embedding_array embedding_dictionary) token_vector"

text \<open>
  \<open>create_translation_dictionary\<close>. A Python set is iterated in an order of its own;
  the model iterates the distinct tokens in the order \<open>remdups\<close> leaves them.
\<close>

definition unique_token :: "string list list \<Rightarrow> string list" where
  "unique_token token_vector = remdups (concat token_vector)"

text \<open>
  The first two loops: \<open>word_embedding_dictionary\<close> (token to embedding, in insertion
  order) and \<open>embedding_subset_dictionary\<close> (running index to token, here the list of
  the tokens in the order of their indices).
\<close>

fun embedding_subset_loop ::
  "real list list \<Rightarrow> (string \<rightharpoonup> int) \<Rightarrow> string list \<Rightarrow>
     (string \<times> real list) list \<Rightarrow> string list \<Rightarrow>
     error + ((string \<times> real list) list \<times> string list)" where
  "embedding_subset_loop embedding_array embedding_dictionary [] word_embedding_dictionary
     embedding_subset_dictionary =
     Inr (word_embedding_dictionary, embedding_subset_dictionary)"
| "embedding_subset_loop embedding_array embedding_dictionary (token # rest)
     word_embedding_dictionary embedding_subset_dictionary =
     (case embedding_dictionary token of
        None \<Rightarrow> embedding_subset_loop embedding_array embedding_dictionary rest
                  word_embedding_dictionary embedding_subset_dictionary
      | Some i \<Rightarrow>
          if i = 0
          then embedding_subset_loop embedding_array embedding_dictionary rest
                 word_embedding_dictionary embedding_subset_dictionary
          else (case array_getitem embedding_array i of
                  Inl e \<Rightarrow> Inl e
                | Inr v \<Rightarrow> embedding_subset_loop embedding_array embedding_dictionary rest
                             (AList.update token v word_embedding_dictionary)
                             (embedding_subset_dictionary @ [token])))"

definition dot :: "real list \<Rightarrow> real list \<Rightarrow> real" where
  "dot u v = sum_list (map2 (*) u v)"

text \<open>
  \<open>np.dot(v, np.transpose(m))\<close> for a vector and the array made of a list of rows: the
  dot product of \<open>v\<close> with every row; \<open>ValueError\<close> when the shapes do not fit. For an
  empty list of rows the array is one-dimensional and empty: the product of two empty
  vectors is the scalar 0, anything else does not fit.
\<close>

definition np_dot_transpose :: "real list \<Rightarrow> real list list \<Rightarrow> error + real list" where
  "np_dot_transpose v m =
     (if m = [] then (if v = [] then Inr [0] else Inl ValueError)
      else if list_all (\<lambda>row. length row = length v) m then Inr (map (dot v) m)
      else Inl ValueError)"

text \<open>\<open>np.argsort\<close>: the positions in ascending order of their values.\<close>

definition argsort :: "real list \<Rightarrow> nat list" where
  "argsort xs = sort_key (\<lambda>i. xs ! i) [0..<length xs]"

definition translation ::
  "string \<Rightarrow> (string \<times> real list) list \<Rightarrow> real list list \<Rightarrow> string list \<Rightarrow> error + string" where
  "translation token word_embedding_dictionary_source embedding_subset_target
     embedding_subset_dictionary_target =
     (case dict_getitem (map_of word_embedding_dictionary_source) token of
        Inl e \<Rightarrow> Inl e
      | Inr norm_src_word_emb \<Rightarrow>
     (case np_dot_transpose norm_src_word_emb embedding_subset_target of
        Inl e \<Rightarrow> Inl e
      | Inr similarity_cos \<Rightarrow>
          (let most_similar_trg_index = argsort (map uminus similarity_cos) ! 0
           in if most_similar_trg_index < length embedding_subset_dictionary_target
              then Inr (embedding_subset_dictionary_target ! most_similar_trg_index)
              else Inl KeyError)))"

text \<open>The last two loops: the translation of every token that passes the test.\<close>

fun translation_loop ::
  "(string \<rightharpoonup> int) \<Rightarrow> string list \<Rightarrow> (string \<times> real list) list \<Rightarrow> real list list \<Rightarrow>
     string list \<Rightarrow> (string \<times> string) list \<Rightarrow> error + (string \<times> string) list" where
  "translation_loop embedding_dictionary [] word_embedding_dictionary embedding_subset_other
     embedding_subset_dictionary_other translation_to = Inr translation_to"
| "translation_loop embedding_dictionary (token # rest) word_embedding_dictionary
     embedding_subset_other embedding_subset_dictionary_other translation_to =
     (case embedding_dictionary token of
        None \<Rightarrow> translation_loop embedding_dictionary rest word_embedding_dictionary
                  embedding_subset_other embedding_subset_dictionary_other translation_to
      | Some i \<Rightarrow>
          if i = 0
          then translation_loop embedding_dictionary rest word_embedding_dictionary
                 embedding_subset_other embedding_subset_dictionary_other translation_to
          else (case translation token word_embedding_dictionary embedding_subset_other
                       embedding_subset_dictionary_other of
                  Inl e \<Rightarrow> Inl e
                | Inr t \<Rightarrow> translation_loop embedding_dictionary rest word_embedding_dictionary
                             embedding_subset_other embedding_subset_dictionary_other
                             (AList.update token t translation_to)))"

definition create_translation_dictionary ::
  "string list list \<Rightarrow> string list list \<Rightarrow>
     real list list \<Rightarrow> (string \<rightharpoonup> int) \<Rightarrow> real list list \<Rightarrow> (string \<rightharpoonup> int) \<Rightarrow>
     error + ((string \<times> string) list \<times> (string \<times> string) list)" where
  "create_translation_dictionary token_vector_source token_vector_target
     embedding_array_normalized_source embedding_dictionary_source
     embedding_array_normalized_target embedding_dictionary_target =
     (let unique_token_source = unique_token token_vector_source;
          unique_token_target = unique_token token_vector_target
      in
     (case embedding_subset_loop embedding_array_normalized_source embedding_dictionary_source
             unique_token_source [] [] of
        Inl e \<Rightarrow> Inl e
      | Inr (word_embedding_dictionary_source, embedding_subset_dictionary_source) \<Rightarrow>
     (case embedding_subset_loop embedding_array_normalized_target embedding_dictionary_target
             unique_token_target [] [] of
        Inl e \<Rightarrow> Inl e
      | Inr (word_embedding_dictionary_target, embedding_subset_dictionary_target) \<Rightarrow>
     (let embedding_subset_source = map snd word_embedding_dictionary_source;
          embedding_subset_target = map snd word_embedding_dictionary_target
      in
     (case translation_loop embedding_dictionary_source unique_token_source
             word_embedding_dictionary_source embedding_subset_target
             embedding_subset_dictionary_target [] of
        Inl e \<Rightarrow> Inl e
      | Inr translation_to_target_source \<Rightarrow>
     (case translation_loop embedding_dictionary_target unique_token_target
             word_embedding_dictionary_target embedding_subset_source
             embedding_subset_dictionary_source [] of
        Inl e \<Rightarrow> Inl e
      | Inr translation_to_source_target \<Rightarrow>
          Inr (translation_to_target_source, translation_to_source_target)))))))"

text \<open>
  \<open>calculate_translations\<close> of \<open>translate_words\<close>: the loop over the word list with
  its \<open>try\<close>/\<open>except KeyError: continue\<close>; any other exception would leave the loop.
\<close>

fun calculate_translations_loop ::
  "string list \<Rightarrow> (string \<rightharpoonup> string) \<Rightarrow> string list \<Rightarrow> error + string list" where
  "calculate_translations_loop [] translation_dictionary translation_list = Inr translation_list"
| "calculate_translations_loop (word # rest) translation_dictionary translation_list =
     (case dict_getitem translation_dictionary word of
        Inr t \<Rightarrow> calculate_translations_loop rest translation_dictionary (translation_list @ [t])
      | Inl KeyError \<Rightarrow> calculate_translations_loop rest translation_dictionary translation_list
      | Inl e \<Rightarrow> Inl e)"

definition calculate_translations :: "string list \<Rightarrow> (string \<rightharpoonup> string) \<Rightarrow> error + string list" where
  "calculate_translations word_list translation_dictionary =
     calculate_translations_loop word_list translation_dictionary []"

definition translate_words ::
  "string list list \<Rightarrow> (string \<rightharpoonup> string) \<Rightarrow> error + string list list" where
  "translate_words token_vector translation_dictionary =
     series_apply (\<lambda>token_list. calculate_translations token_list translation_dictionary) token_vector"

section \<open>Concrete inputs\<close>

text \<open>
  A small preprocessed corpus of three sentence pairs with integer cells, for running the
  operations on concrete data.
\<close>

definition example_DataSet :: "int DataSet" where
  "example_DataSet =
     \<lparr>preprocessed_dataframe =
        \<lparr>index = [0, 1, 2],
         columns = [(''number_words_source'', [Some 4, Some 7, Some 5]),
                    (''number_words_target'', [Some 5, Some 6, Some 5]),
                    (''Translation'', [Some 1, Some 1, Some 1])]\<rparr>,
      preprocessed_source =
        \<lparr>index = [0, 1, 2],
         columns = [(''number_words_source'', [Some 4, Some 7, Some 5])]\<rparr>,
      preprocessed_target =
        \<lparr>index = [0, 1, 2],
         columns = [(''number_words_target'', [Some 5, Some 6, Some 5])]\<rparr>,
      dataset = None\<rparr>"

text \<open>
  Modelled from the spec: the three functions of \<open>src.features.sentence_based\<close>, a
  module of this repository that is not among the sources. The spec names them as the
  absolute, the relative and the length-normalized difference between the source and
  the target statistic, and says no more. They are read here as: the absolute value of
  the difference; that absolute difference relative to the source statistic; and the
  absolute difference of the two statistics after each is divided by the length of its
  sentence. Where the divisor is 0 the quotient is taken as 0, as \<open>average_characters\<close>
  in the same pipeline does.
\<close>

definition quotient :: "real \<Rightarrow> real \<Rightarrow> real" where
  "quotient a b = (if b = 0 then 0 else a / b)"

definition sentence_based_spec :: "real sentence_based" where
  "sentence_based_spec =
     \<lparr>difference_numerical = (\<lambda>src tgt. map2 (\<lambda>a b. \<bar>a - b\<bar>) src tgt),
      relative_difference_numerical = (\<lambda>src tgt. map2 (\<lambda>a b. quotient \<bar>a - b\<bar> a) src tgt),
      normalized_difference_numerical =
        (\<lambda>src tgt len_src len_tgt.
           map2 (\<lambda>(a, la) (b, lb). \<bar>quotient a la - quotient b lb\<bar>)
             (zip src len_src) (zip tgt len_tgt))\<rparr>"

text \<open>
  A preprocessed data set of two sentence pairs that has, for every stem of the list, the
  columns \<open>stem_source\<close> and \<open>stem_target\<close>, and the column \<open>Translation\<close>.
\<close>

definition example_preprocessed :: "real dataframe" where
  "example_preprocessed =
     \<lparr>index = [0, 1],
      columns =
        concat (map (\<lambda>F. [(F @ ''_source'',
                              if F = ''number_punctuations_total'' then [1, 2]
                              else if F = ''number_words'' then [4, 6] else [3, 5]),
                            (F @ ''_target'',
                              if F = ''number_punctuations_total'' then [2, 0]
                              else if F = ''number_words'' then [3, 8] else [4, 5])])
                  initial_feature_difference_list) @
        [(''Translation'', [1, 0])]\<rparr>"

section \<open>Results\<close>

lemma member_list_pm:
  "word \<in> set list_pm \<longleftrightarrow>
     word \<noteq> ''.'' \<and> (word = ''...'' \<or> (\<exists>c \<in> set punctuation. word = [c]))"
  unfolding list_pm_def punctuation_def by auto

lemma length_filter_sum_list:
  "length (filter P xs) = sum_list (map (\<lambda>x. if P x then 1 else 0) xs)"
  by (induction xs) simp_all

text \<open>
  C9: \<open>number_punctuations_total\<close> never counts the end-of-sentence period. In every
  tokenized sentence a token \<open>'.'\<close> contributes 0 to the count, while the ellipsis
  \<open>'...'\<close> and every other single punctuation mark of \<open>string.punctuation\<close> contribute
  1 each; any other token contributes 0.
\<close>

theorem number_punctuations_total_skips_period:
  "number_punctuations_total sentence_vector =
     map (\<lambda>sentence.
            sum_list (map (\<lambda>word. if word = ''.'' then 0
                                  else if word = ''...'' \<or> (\<exists>c \<in> set punctuation. word = [c]) then 1
                                  else 0) sentence))
         sentence_vector"
proof -
  have "length (filter (\<lambda>word. word \<in> set list_pm) s) =
        sum_list (map (\<lambda>word. if word = ''.'' then 0
                               else if word = ''...'' \<or> (\<exists>c \<in> set punctuation. word = [c]) then 1
                               else 0) s)" for s :: "string list"
    unfolding length_filter_sum_list
    by (rule arg_cong [where f = sum_list], rule map_cong) (auto simp: member_list_pm)
  then show ?thesis
    by (simp add: number_punctuations_total_def)
qed

theorem number_punctuations_total_skips_period_witness:
  "number_punctuations_total [[''well'', '','', ''yes'', ''...'', ''no'', ''!'', ''.'']] = [3]"
  using number_punctuations_total_skips_period
          [of "[[''well'', '','', ''yes'', ''...'', ''no'', ''!'', ''.'']]"]
  by (simp add: punctuation_def)

subsection \<open>Average number of characters per word\<close>

text \<open>
  C8: \<open>average_characters\<close> is total and never produces an undefined or infinite value.
  For two count series over the same index the result has, at every position, the
  character count divided by the word count when the word count is nonzero, and 0 when
  the word count is 0 (where the division yields NaN or an infinity); every value of the
  result is finite.
\<close>

theorem average_characters_finite:
  assumes "length character_vector = length word_vector"
  shows "average_characters character_vector word_vector =
           map2 (\<lambda>c w. if w \<noteq> 0 then Finite (real_of_int c / real_of_int w) else Finite 0)
             character_vector word_vector \<and>
         length (average_characters character_vector word_vector) = length word_vector \<and>
         PosInf \<notin> set (average_characters character_vector word_vector) \<and>
         NegInf \<notin> set (average_characters character_vector word_vector) \<and>
         NaN \<notin> set (average_characters character_vector word_vector)"
proof -
  have eq: "average_characters cv wv =
              map2 (\<lambda>c w. if w \<noteq> 0 then Finite (real_of_int c / real_of_int w) else Finite 0) cv wv"
    for cv wv
    unfolding average_characters_def replace_def np_log_0_def true_divide_def
    by (induction cv wv rule: list_induct2') simp_all
  show ?thesis
    using assms by (auto simp: eq split: if_splits)
qed

theorem average_characters_finite_witness:
  "average_characters [12, 0, 5, -3] [3, 0, 0, 0] = [Finite 4, Finite 0, Finite 0, Finite 0]"
  using average_characters_finite [of "[12, 0, 5, -3]" "[3, 0, 0, 0]"] by simp

subsection \<open>Embedding lookup and nearest-neighbour translation\<close>

text \<open>
  C4 (the code departs from it): word-embedding lookup should return the embeddings of
  exactly the tokens that are keys of the embedding dictionary. The token that the
  dictionary maps to index 0 is a key, yet the truthiness test drops it: for the
  dictionary \<open>{the: 0, cat: 1}\<close> the frame has the single column \<open>cat\<close>.
\<close>

theorem token_list_embedding_drops_index_0:
  "token_list_embedding [[1, 0], [0, 1]] [''the'' \<mapsto> 0, ''cat'' \<mapsto> 1] [''the'', ''cat''] =
     Inr \<lparr>index = [0, 1], columns = [(''cat'', [0, 1])]\<rparr>"
  by (simp add: token_list_embedding_def array_getitem_def DataFrame_of_dict_def RangeIndex_def
      upt_rec)

text \<open>
  C3 (the code departs from it): every source token with an entry in the source embedding
  dictionary should be mapped to the target token, among those with an entry, of maximal
  dot product, and symmetrically. With \<open>hund\<close> at index 0 of the source dictionary,
  \<open>hund\<close> gets no translation although it has an entry, and \<open>dog\<close> (whose embedding
  equals that of \<open>hund\<close>, dot product 1) is mapped to \<open>katze\<close> (dot product 0), because
  \<open>hund\<close> is not among the candidates.
\<close>

theorem create_translation_dictionary_drops_index_0:
  "create_translation_dictionary [[''hund'', ''katze'']] [[''dog'', ''cat'']]
     [[1, 0], [0, 1]] [''hund'' \<mapsto> 0, ''katze'' \<mapsto> 1]
     [[3 / 5, 4 / 5], [1, 0], [0, 1]] [''dog'' \<mapsto> 1, ''cat'' \<mapsto> 2] =
   Inr ([(''katze'', ''cat'')], [(''dog'', ''katze''), (''cat'', ''katze'')])"
  by (simp add: create_translation_dictionary_def unique_token_def array_getitem_def
      translation_def dict_getitem_def np_dot_transpose_def dot_def argsort_def upt_rec)

subsection \<open>Sampling the data set\<close>

lemma is_draw_bounds:
  assumes "is_draw population n draw"
  shows "0 \<le> n" and "n \<le> int population" and "length draw = nat n"
proof -
  from assms have len: "int (length draw) = n" and d: "distinct draw"
    and b: "set draw \<subseteq> {..<population}"
    by (auto simp: is_draw_def list_all_iff)
  from len show "0 \<le> n" by linarith
  from len show "length draw = nat n" by linarith
  have "card (set draw) \<le> card {..<population}"
    using b by (intro card_mono) simp_all
  then have "length draw \<le> population"
    using d by (simp add: distinct_card)
  with len show "n \<le> int population" by linarith
qed

lemma sample_draw:
  assumes "is_draw (nrows df) n draw"
  shows "sample df n draw =
           Inr \<lparr>index = map (\<lambda>p. index df ! p) draw,
                columns = map (\<lambda>(name, col). (name, map (\<lambda>p. col ! p) draw)) (columns df)\<rparr>"
  using is_draw_bounds(1,2) [OF assms] by (simp add: sample_def)

lemma sample_ValueError:
  "n < 0 \<or> int (nrows df) < n \<Longrightarrow> sample df n draw = Inl ValueError"
  by (simp add: sample_def)

lemma map_of_sampled:
  "map_of (map (\<lambda>(name, col). (name, f col)) cols) name = map_option f (map_of cols name)"
  by (induction cols) auto

lemma map_of_named:
  "map_of (map (\<lambda>name. (name, f name)) names) name =
     (if name \<in> set names then Some (f name) else None)"
  by (induction names) auto

lemma map_of_concat_union:
  "map_of (columns (concat_union a b)) name =
     (if name \<in> fst ` set (columns a) \<union> fst ` set (columns b)
      then Some (column_or_nan a name @ column_or_nan b name) else None)"
proof -
  define names where
    "names = map fst (columns a) @
             filter (\<lambda>name. name \<notin> set (map fst (columns a))) (map fst (columns b))"
  have cols: "columns (concat_union a b) =
                map (\<lambda>name. (name, column_or_nan a name @ column_or_nan b name)) names"
    by (simp add: concat_union_def names_def)
  have "set names = fst ` set (columns a) \<union> fst ` set (columns b)"
    by (auto simp: names_def)
  then show ?thesis
    unfolding cols map_of_named by simp
qed

lemma column_or_nan_Some: "map_of (columns df) name = Some col \<Longrightarrow> column_or_nan df name = col"
  by (simp add: column_or_nan_def)

lemma length_column_or_nan_sampled:
  assumes "length draw = k"
  shows "length (column_or_nan
     \<lparr>index = RangeIndex k,
      columns = map (\<lambda>(name, col). (name, map (\<lambda>p. col ! p) draw)) cols\<rparr> name) = k"
  using assms
  by (auto simp: column_or_nan_def map_of_sampled nrows_def RangeIndex_def split: option.splits)

lemma map_of_wrong:
  "map_of (AList.update ''Translation'' zeros
            (map (\<lambda>(name, col). (name, f col)) cs @ map (\<lambda>(name, col). (name, g col)) ct)) name =
     (if name = ''Translation'' then Some zeros
      else case map_of cs name of
             Some col \<Rightarrow> Some (f col)
           | None \<Rightarrow> map_option g (map_of ct name))"
  by (simp add: update_conv' map_of_append map_add_def map_of_sampled split: option.splits)

lemma length_column_or_nan_wrong:
  assumes "length zeros = k" "length d2 = k" "length d3 = k"
  shows "length (column_or_nan
     \<lparr>index = RangeIndex k,
      columns = AList.update ''Translation'' zeros
                 (map (\<lambda>(name, col). (name, map (\<lambda>p. col ! p) d2)) cs @
                  map (\<lambda>(name, col). (name, map (\<lambda>p. col ! p) d3)) ct)\<rparr> name) = k"
  using assms
  by (auto simp: column_or_nan_def map_of_wrong nrows_def RangeIndex_def split: option.splits)

lemma map_fst_sampled: "map fst (map (\<lambda>(name, col). (name, f col)) cols) = map fst cols"
  by (induction cols) auto

lemma distinct_labels_wrong:
  assumes "distinct (map fst cs @ map fst ct)"
  shows "distinct (map fst (AList.update ''Translation'' zeros
           (map (\<lambda>(name, col). (name, f col)) cs @ map (\<lambda>(name, col). (name, g col)) ct)))"
proof -
  have "map fst (map (\<lambda>(name, col). (name, f col)) cs @ map (\<lambda>(name, col). (name, g col)) ct) =
          map fst cs @ map fst ct"
    by (simp only: map_append map_fst_sampled)
  then have "distinct (map fst (map (\<lambda>(name, col). (name, f col)) cs @
                                map (\<lambda>(name, col). (name, g col)) ct))"
    using assms by (simp only:)
  then show ?thesis
    by (rule distinct_update)
qed

lemma concat_axis0_distinct:
  assumes "distinct (map fst (columns a))" and "distinct (map fst (columns b))"
  shows "concat_axis0 a b = Inr (concat_union a b)"
  using assms by (simp add: concat_axis0_def)

lemma get_sample_draws:
  fixes self :: "'v::zero DataSet"
  assumes "is_draw (nrows (preprocessed_dataframe self)) n draw_right"
      and "is_draw (nrows (preprocessed_source self)) n draw_source"
      and "is_draw (nrows (preprocessed_target self)) n draw_target"
      and "distinct (map fst (columns (preprocessed_dataframe self)))"
      and "distinct (map fst (columns (preprocessed_source self)) @
                     map fst (columns (preprocessed_target self)))"
  shows "get_sample self n draw_right draw_source draw_target =
           Inr (self\<lparr>dataset := Some (reset_index (concat_union
             \<lparr>index = RangeIndex (nat n),
              columns = map (\<lambda>(name, col). (name, map (\<lambda>p. col ! p) draw_right))
                          (columns (preprocessed_dataframe self))\<rparr>
             \<lparr>index = RangeIndex (nat n),
              columns = AList.update ''Translation'' (replicate (nat n) (Some 0))
                (map (\<lambda>(name, col). (name, map (\<lambda>p. col ! p) draw_source))
                          (columns (preprocessed_source self)) @
                 map (\<lambda>(name, col). (name, map (\<lambda>p. col ! p) draw_target))
                          (columns (preprocessed_target self)))\<rparr>))\<rparr>)"
proof -
  define R :: "'v option dataframe" where
    "R = \<lparr>index = RangeIndex (nat n),
          columns = map (\<lambda>(name, col). (name, map (\<lambda>p. col ! p) draw_right))
                      (columns (preprocessed_dataframe self))\<rparr>"
  define W :: "'v option dataframe" where
    "W = \<lparr>index = RangeIndex (nat n),
          columns = AList.update ''Translation'' (replicate (nat n) (Some 0))
            (map (\<lambda>(name, col). (name, map (\<lambda>p. col ! p) draw_source))
                      (columns (preprocessed_source self)) @
             map (\<lambda>(name, col). (name, map (\<lambda>p. col ! p) draw_target))
                      (columns (preprocessed_target self)))\<rparr>"
  note len = is_draw_bounds(3) [OF assms(1)] is_draw_bounds(3) [OF assms(2)]
    is_draw_bounds(3) [OF assms(3)]
  have right: "reset_index \<lparr>index = map (\<lambda>p. index (preprocessed_dataframe self) ! p) draw_right,
                 columns = map (\<lambda>(name, col). (name, map (\<lambda>p. col ! p) draw_right))
                             (columns (preprocessed_dataframe self))\<rparr> = R"
    using len by (simp add: R_def reset_index_def nrows_def)
  have wrong: "frame_setitem
      (concat_axis1
        (reset_index \<lparr>index = map (\<lambda>p. index (preprocessed_source self) ! p) draw_source,
                 columns = map (\<lambda>(name, col). (name, map (\<lambda>p. col ! p) draw_source))
                             (columns (preprocessed_source self))\<rparr>)
        (reset_index \<lparr>index = map (\<lambda>p. index (preprocessed_target self) ! p) draw_target,
                 columns = map (\<lambda>(name, col). (name, map (\<lambda>p. col ! p) draw_target))
                             (columns (preprocessed_target self))\<rparr>))
      ''Translation''
      (replicate (nrows (concat_axis1
        (reset_index \<lparr>index = map (\<lambda>p. index (preprocessed_source self) ! p) draw_source,
                 columns = map (\<lambda>(name, col). (name, map (\<lambda>p. col ! p) draw_source))
                             (columns (preprocessed_source self))\<rparr>)
        (reset_index \<lparr>index = map (\<lambda>p. index (preprocessed_target self) ! p) draw_target,
                 columns = map (\<lambda>(name, col). (name, map (\<lambda>p. col ! p) draw_target))
                             (columns (preprocessed_target self))\<rparr>))) (Some 0)) = W"
    using len
    by (simp add: W_def reset_index_def nrows_def concat_axis1_def frame_setitem_def RangeIndex_def)
  have "distinct (map fst (columns R))"
    using assms(4) by (simp only: R_def dataframe.simps map_fst_sampled)
  moreover have "distinct (map fst (columns W))"
    unfolding W_def dataframe.simps by (rule distinct_labels_wrong [OF assms(5)])
  ultimately have both: "concat_axis0 R W = Inr (concat_union R W)"
    by (rule concat_axis0_distinct)
  have "get_sample self n draw_right draw_source draw_target =
          (case concat_axis0 R W of
             Inl e \<Rightarrow> Inl e
           | Inr both \<Rightarrow> Inr (self\<lparr>dataset := Some (reset_index both)\<rparr>))"
    unfolding get_sample_def sample_draw [OF assms(1)] sample_draw [OF assms(2)]
      sample_draw [OF assms(3)] sum.case Let_def right wrong ..
  then have "get_sample self n draw_right draw_source draw_target =
               Inr (self\<lparr>dataset := Some (reset_index (concat_union R W))\<rparr>)"
    by (simp only: both sum.case)
  then show ?thesis
    unfolding R_def W_def .
qed

text \<open>
  C1: after \<open>get_sample(n)\<close> the attribute \<open>dataset\<close> holds exactly \<open>2n\<close> rows with the
  index \<open>0..2n-1\<close>. The first \<open>n\<close> rows are the \<open>n\<close> rows sampled from the preprocessed
  parallel frame; the last \<open>n\<close> rows pair, column-wise, the \<open>n\<close> rows sampled from the
  preprocessed source frame with the \<open>n\<close> rows sampled independently from the
  preprocessed target frame. This holds for frames whose column labels are unique and
  not shared between the source and the target frame (\<open>pd.concat\<close> cannot align the
  columns otherwise), and for every \<open>n\<close> that the three frames can be sampled for
  (\<open>sample\<close> raises \<open>ValueError\<close> for any other \<open>n\<close>).
\<close>

theorem get_sample_rows:
  fixes self :: "'v::zero DataSet"
  assumes "is_draw (nrows (preprocessed_dataframe self)) n draw_right"
      and "is_draw (nrows (preprocessed_source self)) n draw_source"
      and "is_draw (nrows (preprocessed_target self)) n draw_target"
      and "distinct (map fst (columns (preprocessed_dataframe self)))"
      and "distinct (map fst (columns (preprocessed_source self)) @
                     map fst (columns (preprocessed_target self)))"
  shows "\<exists>ds. get_sample self n draw_right draw_source draw_target = Inr (self\<lparr>dataset := Some ds\<rparr>) \<and>
           int (nrows ds) = 2 * n \<and>
           index ds = RangeIndex (nat (2 * n)) \<and>
           (\<forall>(name, col) \<in> set (columns ds). int (length col) = 2 * n) \<and>
           (\<forall>name col. map_of (columns (preprocessed_dataframe self)) name = Some col \<longrightarrow>
              (\<exists>col'. map_of (columns ds) name = Some col' \<and>
                      take (nat n) col' = map (\<lambda>p. col ! p) draw_right)) \<and>
           (\<forall>name col. map_of (columns (preprocessed_source self)) name = Some col \<and>
                       name \<noteq> ''Translation'' \<longrightarrow>
              (\<exists>col'. map_of (columns ds) name = Some col' \<and>
                      drop (nat n) col' = map (\<lambda>p. col ! p) draw_source)) \<and>
           (\<forall>name col. map_of (columns (preprocessed_target self)) name = Some col \<and>
                       name \<noteq> ''Translation'' \<longrightarrow>
              (\<exists>col'. map_of (columns ds) name = Some col' \<and>
                      drop (nat n) col' = map (\<lambda>p. col ! p) draw_target))"
proof -
  define k where "k = nat n"
  define R :: "'v option dataframe" where
    "R = \<lparr>index = RangeIndex k,
          columns = map (\<lambda>(name, col). (name, map (\<lambda>p. col ! p) draw_right))
                      (columns (preprocessed_dataframe self))\<rparr>"
  define W :: "'v option dataframe" where
    "W = \<lparr>index = RangeIndex k,
          columns = AList.update ''Translation'' (replicate k (Some 0))
            (map (\<lambda>(name, col). (name, map (\<lambda>p. col ! p) draw_source))
                      (columns (preprocessed_source self)) @
             map (\<lambda>(name, col). (name, map (\<lambda>p. col ! p) draw_target))
                      (columns (preprocessed_target self)))\<rparr>"
  define ds where "ds = reset_index (concat_union R W)"
  have n: "0 \<le> n" "int k = n"
    and len: "length draw_right = k" "length draw_source = k" "length draw_target = k"
    using is_draw_bounds [OF assms(1)] is_draw_bounds [OF assms(2)] is_draw_bounds [OF assms(3)]
    by (simp_all add: k_def)
  have run: "get_sample self n draw_right draw_source draw_target = Inr (self\<lparr>dataset := Some ds\<rparr>)"
    unfolding ds_def R_def W_def k_def by (rule get_sample_draws [OF assms])
  have lenR: "length (column_or_nan R name) = k" for name
    unfolding R_def using len by (simp add: length_column_or_nan_sampled)
  have lenW: "length (column_or_nan W name) = k" for name
    unfolding W_def using len by (simp add: length_column_or_nan_wrong)
  have cols: "map_of (columns ds) name =
                (if name \<in> fst ` set (columns R) \<union> fst ` set (columns W)
                 then Some (column_or_nan R name @ column_or_nan W name) else None)" for name
    by (simp add: ds_def reset_index_def map_of_concat_union)
  have idx: "index ds = RangeIndex (k + k)"
    by (simp add: ds_def reset_index_def nrows_def concat_union_def R_def W_def RangeIndex_def)
  have rows: "nrows ds = k + k"
    by (simp add: nrows_def idx RangeIndex_def)
  have all_len: "length col = k + k" if "(name, col) \<in> set (columns ds)" for name col
  proof -
    from that have "col = column_or_nan R name @ column_or_nan W name"
      by (auto simp: ds_def reset_index_def concat_union_def)
    then show ?thesis by (simp add: lenR lenW)
  qed
  have right: "\<exists>col'. map_of (columns ds) name = Some col' \<and>
                 take k col' = map (\<lambda>p. col ! p) draw_right"
    if "map_of (columns (preprocessed_dataframe self)) name = Some col" for name col
  proof -
    from that have m: "map_of (columns R) name = Some (map (\<lambda>p. col ! p) draw_right)"
      by (simp add: R_def map_of_sampled)
    then have "name \<in> fst ` set (columns R)"
      by (metis map_of_eq_None_iff option.distinct(1))
    with m show ?thesis
      using len by (simp add: cols column_or_nan_Some)
  qed
  have source: "\<exists>col'. map_of (columns ds) name = Some col' \<and>
                 drop k col' = map (\<lambda>p. col ! p) draw_source"
    if "map_of (columns (preprocessed_source self)) name = Some col" "name \<noteq> ''Translation''"
    for name col
  proof -
    from that have m: "map_of (columns W) name = Some (map (\<lambda>p. col ! p) draw_source)"
      by (simp add: W_def map_of_wrong)
    then have "name \<in> fst ` set (columns W)"
      by (metis map_of_eq_None_iff option.distinct(1))
    with m show ?thesis
      by (simp add: cols column_or_nan_Some lenR)
  qed
  have target: "\<exists>col'. map_of (columns ds) name = Some col' \<and>
                 drop k col' = map (\<lambda>p. col ! p) draw_target"
    if "map_of (columns (preprocessed_target self)) name = Some col" "name \<noteq> ''Translation''"
    for name col
  proof -
    from that(1) have "name \<in> fst ` set (columns (preprocessed_target self))"
      by (metis map_of_eq_None_iff option.distinct(1))
    with assms(5) have "name \<notin> fst ` set (columns (preprocessed_source self))"
      by auto
    then have "map_of (columns (preprocessed_source self)) name = None"
      by (simp add: map_of_eq_None_iff)
    with that have m: "map_of (columns W) name = Some (map (\<lambda>p. col ! p) draw_target)"
      by (simp add: W_def map_of_wrong)
    then have "name \<in> fst ` set (columns W)"
      by (metis map_of_eq_None_iff option.distinct(1))
    with m show ?thesis
      by (simp add: cols column_or_nan_Some lenR)
  qed
  have k2: "nat (2 * n) = k + k" "int (k + k) = 2 * n"
    using n by simp_all
  show ?thesis
  proof (intro exI [of _ ds] conjI allI impI)
    show "get_sample self n draw_right draw_source draw_target = Inr (self\<lparr>dataset := Some ds\<rparr>)"
      by (rule run)
    show "int (nrows ds) = 2 * n" using rows k2 by simp
    show "index ds = RangeIndex (nat (2 * n))" using idx k2 by simp
    show "\<forall>(name, col) \<in> set (columns ds). int (length col) = 2 * n"
      using all_len k2 by auto
  next
    fix name col
    assume "map_of (columns (preprocessed_dataframe self)) name = Some col"
    then show "\<exists>col'. map_of (columns ds) name = Some col' \<and>
                 take (nat n) col' = map (\<lambda>p. col ! p) draw_right"
      using right by (simp add: k_def)
  next
    fix name col
    assume "map_of (columns (preprocessed_source self)) name = Some col \<and> name \<noteq> ''Translation''"
    then show "\<exists>col'. map_of (columns ds) name = Some col' \<and>
                 drop (nat n) col' = map (\<lambda>p. col ! p) draw_source"
      using source by (simp add: k_def)
  next
    fix name col
    assume "map_of (columns (preprocessed_target self)) name = Some col \<and>
            name \<noteq> ''Translation''"
    then show "\<exists>col'. map_of (columns ds) name = Some col' \<and>
                 drop (nat n) col' = map (\<lambda>p. col ! p) draw_target"
      using target by (simp add: k_def)
  qed
qed

theorem get_sample_rows_witness:
  "is_draw 3 2 [2, 0] \<and> is_draw 3 2 [1, 2] \<and> is_draw 3 2 [0, 1] \<and>
   (\<exists>ds. get_sample example_DataSet 2 [2, 0] [1, 2] [0, 1] =
            Inr (example_DataSet\<lparr>dataset := Some ds\<rparr>) \<and>
          nrows ds = 4 \<and> index ds = [0, 1, 2, 3] \<and>
          (\<exists>col'. map_of (columns ds) ''number_words_source'' = Some col' \<and>
                  drop 2 col' = [Some 7, Some 5]))"
proof -
  have d: "is_draw (nrows (preprocessed_dataframe example_DataSet)) 2 [2, 0]"
    "is_draw (nrows (preprocessed_source example_DataSet)) 2 [1, 2]"
    "is_draw (nrows (preprocessed_target example_DataSet)) 2 [0, 1]"
    by (simp_all add: is_draw_def example_DataSet_def nrows_def)
  have c: "map_of (columns (preprocessed_source example_DataSet)) ''number_words_source'' =
             Some [Some 4, Some 7, Some 5] \<and> ''number_words_source'' \<noteq> ''Translation''"
    by (simp add: example_DataSet_def)
  have u: "distinct (map fst (columns (preprocessed_dataframe example_DataSet)))"
    "distinct (map fst (columns (preprocessed_source example_DataSet)) @
               map fst (columns (preprocessed_target example_DataSet)))"
    by (simp_all add: example_DataSet_def)
  from get_sample_rows [OF d u] obtain ds where
    run: "get_sample example_DataSet 2 [2, 0] [1, 2] [0, 1] =
            Inr (example_DataSet\<lparr>dataset := Some ds\<rparr>)"
    and rows: "int (nrows ds) = 2 * 2"
    and idx: "index ds = RangeIndex (nat (2 * 2))"
    and src: "\<forall>name col. map_of (columns (preprocessed_source example_DataSet)) name = Some col \<and>
                name \<noteq> ''Translation'' \<longrightarrow>
                (\<exists>col'. map_of (columns ds) name = Some col' \<and>
                        drop (nat 2) col' = map (\<lambda>p. col ! p) [1, 2])"
    by blast
  from src c have "\<exists>col'. map_of (columns ds) ''number_words_source'' = Some col' \<and>
                     drop (nat 2) col' = map (\<lambda>p. [Some 4, Some 7, Some 5] ! p) [1, 2]"
    by blast
  then have "\<exists>col'. map_of (columns ds) ''number_words_source'' = Some col' \<and>
               drop 2 col' = [Some 7, Some (5::int)]"
    by (simp add: numeral_2_eq_2)
  moreover have "is_draw 3 2 [2, 0]" "is_draw 3 2 [1, 2]" "is_draw 3 2 [0, 1]"
    by (simp_all add: is_draw_def)
  moreover have "nrows ds = 4" "index ds = [0, 1, 2, 3]"
    using rows idx by (simp_all add: RangeIndex_def upt_rec)
  ultimately show ?thesis
    using run by blast
qed

text \<open>
  C6: after \<open>get_sample(n)\<close> every row that comes from the mismatched sample (the rows
  \<open>n..2n-1\<close>) has 0 in the column \<open>Translation\<close>, while the \<open>n\<close> rows sampled from the
  preprocessed parallel frame (the rows \<open>0..n-1\<close>) keep the \<open>Translation\<close> values they
  have in that frame. As for the rows, this holds for frames whose column labels are
  unique and not shared between the source and the target frame.
\<close>

theorem get_sample_labels:
  fixes self :: "'v::zero DataSet"
  assumes "is_draw (nrows (preprocessed_dataframe self)) n draw_right"
      and "is_draw (nrows (preprocessed_source self)) n draw_source"
      and "is_draw (nrows (preprocessed_target self)) n draw_target"
      and "distinct (map fst (columns (preprocessed_dataframe self)))"
      and "distinct (map fst (columns (preprocessed_source self)) @
                     map fst (columns (preprocessed_target self)))"
      and "map_of (columns (preprocessed_dataframe self)) ''Translation'' = Some labels"
  shows "\<exists>ds labels'.
           get_sample self n draw_right draw_source draw_target = Inr (self\<lparr>dataset := Some ds\<rparr>) \<and>
           map_of (columns ds) ''Translation'' = Some labels' \<and>
           length labels' = nat (2 * n) \<and>
           drop (nat n) labels' = replicate (nat n) (Some 0) \<and>
           take (nat n) labels' = map (\<lambda>p. labels ! p) draw_right"
proof -
  define k where "k = nat n"
  define R :: "'v option dataframe" where
    "R = \<lparr>index = RangeIndex k,
          columns = map (\<lambda>(name, col). (name, map (\<lambda>p. col ! p) draw_right))
                      (columns (preprocessed_dataframe self))\<rparr>"
  define W :: "'v option dataframe" where
    "W = \<lparr>index = RangeIndex k,
          columns = AList.update ''Translation'' (replicate k (Some 0))
            (map (\<lambda>(name, col). (name, map (\<lambda>p. col ! p) draw_source))
                      (columns (preprocessed_source self)) @
             map (\<lambda>(name, col). (name, map (\<lambda>p. col ! p) draw_target))
                      (columns (preprocessed_target self)))\<rparr>"
  define ds where "ds = reset_index (concat_union R W)"
  have n: "0 \<le> n" and len: "length draw_right = k"
    using is_draw_bounds [OF assms(1)] by (simp_all add: k_def)
  have run: "get_sample self n draw_right draw_source draw_target = Inr (self\<lparr>dataset := Some ds\<rparr>)"
    unfolding ds_def R_def W_def k_def by (rule get_sample_draws [OF assms(1-5)])
  have r: "column_or_nan R ''Translation'' = map (\<lambda>p. labels ! p) draw_right"
    using assms(6) by (simp add: column_or_nan_def R_def map_of_sampled)
  have w: "column_or_nan W ''Translation'' = replicate k (Some 0)"
    by (simp add: column_or_nan_def W_def map_of_wrong)
  have "''Translation'' \<in> fst ` set (columns W)"
    by (simp add: W_def dom_update)
  then have "map_of (columns ds) ''Translation'' =
               Some (map (\<lambda>p. labels ! p) draw_right @ replicate k (Some 0))"
    by (simp add: ds_def reset_index_def map_of_concat_union r w)
  moreover have "nat (2 * n) = k + k"
    using n by (simp add: k_def)
  ultimately show ?thesis
    using run len
    by (intro exI [of _ ds] exI [of _ "map (\<lambda>p. labels ! p) draw_right @ replicate k (Some 0)"])
       (simp add: k_def)
qed

theorem get_sample_labels_witness:
  "is_draw 3 2 [2, 0] \<and> is_draw 3 2 [1, 2] \<and> is_draw 3 2 [0, 1] \<and>
   (\<exists>ds. get_sample example_DataSet 2 [2, 0] [1, 2] [0, 1] =
            Inr (example_DataSet\<lparr>dataset := Some ds\<rparr>) \<and>
          map_of (columns ds) ''Translation'' = Some [Some 1, Some 1, Some 0, Some 0])"
proof -
  have d: "is_draw (nrows (preprocessed_dataframe example_DataSet)) 2 [2, 0]"
    "is_draw (nrows (preprocessed_source example_DataSet)) 2 [1, 2]"
    "is_draw (nrows (preprocessed_target example_DataSet)) 2 [0, 1]"
    by (simp_all add: is_draw_def example_DataSet_def nrows_def)
  have l: "map_of (columns (preprocessed_dataframe example_DataSet)) ''Translation'' =
             Some [Some 1, Some 1, Some 1]"
    by (simp add: example_DataSet_def)
  have u: "distinct (map fst (columns (preprocessed_dataframe example_DataSet)))"
    "distinct (map fst (columns (preprocessed_source example_DataSet)) @
               map fst (columns (preprocessed_target example_DataSet)))"
    by (simp_all add: example_DataSet_def)
  from get_sample_labels [OF d u l] obtain ds labels' where
    run: "get_sample example_DataSet 2 [2, 0] [1, 2] [0, 1] = Inr (example_DataSet\<lparr>dataset := Some ds\<rparr>)"
    and m: "map_of (columns ds) ''Translation'' = Some labels'"
    and ln: "length labels' = nat (2 * 2)"
    and dr: "drop (nat 2) labels' = replicate (nat 2) (Some 0)"
    and tk: "take (nat 2) labels' = map (\<lambda>p. [Some 1, Some 1, Some 1] ! p) [2, 0]"
    by blast
  have "labels' = take 2 labels' @ drop 2 labels'" by simp
  also have "\<dots> = [Some 1, Some 1, Some 0, Some 0]"
    using dr tk by (simp add: numeral_2_eq_2)
  finally have "labels' = [Some 1, Some 1, Some 0, Some 0]" .
  moreover have "is_draw 3 2 [2, 0]" "is_draw 3 2 [1, 2]" "is_draw 3 2 [0, 1]"
    by (simp_all add: is_draw_def)
  ultimately show ?thesis
    using run m by blast
qed

text \<open>
  When the source and the target frame share a column label, the mismatched sample has
  that label twice and the last \<open>pd.concat\<close> raises.
\<close>

lemma get_sample_shared_label:
  "get_sample
     \<lparr>preprocessed_dataframe =
        \<lparr>index = [0], columns = [(''id'', [Some 7]), (''Translation'', [Some (1::int)])]\<rparr>,
      preprocessed_source = \<lparr>index = [0], columns = [(''id'', [Some 7])]\<rparr>,
      preprocessed_target = \<lparr>index = [0], columns = [(''id'', [Some 8])]\<rparr>,
      dataset = None\<rparr> 1 [0] [0] [0] = Inl InvalidIndexError"
  by (simp add: get_sample_def sample_def nrows_def reset_index_def concat_axis1_def
      frame_setitem_def concat_axis0_def RangeIndex_def Let_def)

subsection \<open>Feature generation\<close>










lemma frame_getitem_None: "map_of (columns df) name = None \<Longrightarrow> frame_getitem df name = Inl KeyError"
  by (simp add: frame_getitem_def dict_getitem_def)








lemma initial_normalizer_stems:
  "''number_punctuations_total'' \<in> set initial_feature_difference_list"
  "''number_words'' \<in> set initial_feature_difference_list"
  by (simp_all add: initial_feature_difference_list_def)














subsection \<open>Normalised embeddings\<close>






























subsection \<open>Exceptions\<close>

lemma calculate_translations_loop_skips:
  "calculate_translations_loop word_list translation_dictionary translation_list =
     Inr (translation_list @ List.map_filter translation_dictionary word_list)"
  by (induction word_list arbitrary: translation_list)
     (simp_all add: List.map_filter_simps dict_getitem_def split: option.splits)

lemma series_apply_Inr: "series_apply (\<lambda>x. Inr (f x)) xs = Inr (map f xs)"
  by (induction xs) simp_all

text \<open>\<open>apply\<close> leaves with the exception of the first element that raises.\<close>

lemma series_apply_first_error:
  assumes "\<forall>x \<in> set before. \<exists>y. f x = Inr y" and "f x = Inl e"
  shows "series_apply f (before @ x # rest) = Inl e"
  using assms(1)
proof (induction before)
  case Nil
  show ?case by (simp add: assms(2))
next
  case (Cons b before)
  then obtain y where "f b = Inr y" by auto
  with Cons show ?case by simp
qed

lemma array_getitem_error: "array_getitem array i = Inl e \<Longrightarrow> e = IndexError"
  by (auto simp: array_getitem_def split: if_splits)

lemma token_list_embedding_loop_error:
  assumes "token \<in> set token_list" and "embedding_dictionary token = Some i" and "i \<noteq> 0"
      and "array_getitem embedding_array i = Inl e"
  shows "token_list_embedding_loop embedding_array embedding_dictionary token_list acc = Inl e"
  using assms(1)
proof (induction token_list arbitrary: acc)
  case Nil
  then show ?case by simp
next
  case (Cons t rest)
  have e: "e = IndexError"
    using assms(4) by (rule array_getitem_error)
  show ?case
  proof (cases "t = token")
    case True
    then show ?thesis using assms(2-4) by simp
  next
    case False
    with Cons.prems have "token \<in> set rest" by simp
    note IH = Cons.IH [OF this]
    show ?thesis
    proof (cases "embedding_dictionary t")
      case None
      then show ?thesis using IH by simp
    next
      case (Some j)
      show ?thesis
      proof (cases "array_getitem embedding_array j")
        case (Inl e')
        then have "e' = IndexError" by (rule array_getitem_error)
        with Inl Some IH e show ?thesis by simp
      next
        case (Inr v)
        with Some IH show ?thesis by simp
      qed
    qed
  qed
qed

lemma embedding_subset_loop_error:
  assumes "token \<in> set tokens" and "embedding_dictionary token = Some i" and "i \<noteq> 0"
      and "array_getitem embedding_array i = Inl e"
  shows "embedding_subset_loop embedding_array embedding_dictionary tokens w s = Inl e"
  using assms(1)
proof (induction tokens arbitrary: w s)
  case Nil
  then show ?case by simp
next
  case (Cons t rest)
  have e: "e = IndexError"
    using assms(4) by (rule array_getitem_error)
  show ?case
  proof (cases "t = token")
    case True
    then show ?thesis using assms(2-4) by simp
  next
    case False
    with Cons.prems have "token \<in> set rest" by simp
    note IH = Cons.IH [OF this]
    show ?thesis
    proof (cases "embedding_dictionary t")
      case None
      then show ?thesis using IH by simp
    next
      case (Some j)
      show ?thesis
      proof (cases "array_getitem embedding_array j")
        case (Inl e')
        then have "e' = IndexError" by (rule array_getitem_error)
        with Inl Some IH e show ?thesis by simp
      next
        case (Inr v)
        with Some IH show ?thesis by simp
      qed
    qed
  qed
qed

lemma translation_loop_error:
  assumes "token \<in> set tokens" and "embedding_dictionary token = Some i" and "i \<noteq> 0"
      and "translation token w es esd = Inl e"
  shows "\<exists>token' e'. token' \<in> set tokens \<and> translation token' w es esd = Inl e' \<and>
           translation_loop embedding_dictionary tokens w es esd acc = Inl e'"
  using assms(1)
proof (induction tokens arbitrary: acc)
  case Nil
  then show ?case by simp
next
  case (Cons t rest)
  show ?case
  proof (cases "\<exists>j e'. embedding_dictionary t = Some j \<and> j \<noteq> 0 \<and> translation t w es esd = Inl e'")
    case True
    then obtain j e' where "embedding_dictionary t = Some j" "j \<noteq> 0"
      "translation t w es esd = Inl e'" by blast
    then have "translation_loop embedding_dictionary (t # rest) w es esd acc = Inl e'"
      by simp
    with \<open>translation t w es esd = Inl e'\<close> show ?thesis
      by (intro exI [of _ t] exI [of _ e']) simp
  next
    case False
    with assms(2-4) have "t \<noteq> token" by auto
    with Cons.prems have "token \<in> set rest" by simp
    from Cons.IH [OF this] have IH: "\<exists>token' e'. token' \<in> set rest \<and>
        translation token' w es esd = Inl e' \<and>
        translation_loop embedding_dictionary rest w es esd acc' = Inl e'" for acc'
      by blast
    show ?thesis
    proof (cases "embedding_dictionary t")
      case None
      with IH [of acc] show ?thesis by auto
    next
      case (Some j)
      show ?thesis
      proof (cases "j = 0")
        case True
        with Some IH [of acc] show ?thesis by auto
      next
        case nz: False
        with False Some obtain v where v: "translation t w es esd = Inr v"
          by (cases "translation t w es esd") auto
        from IH [of "AList.update t v acc"] Some nz v show ?thesis by auto
      qed
    qed
  qed
qed

lemma feature_step_error: "feature_step sb ds F fd = Inl e \<Longrightarrow> e = KeyError"
  by (auto simp: feature_step_def frame_getitem_def dict_getitem_def Let_def
      split: option.splits sum.splits)

lemma feature_step_KeyError:
  assumes "name \<in> {F @ ''_source'', F @ ''_target'', ''number_punctuations_total_source'',
                    ''number_words_source'', ''number_punctuations_total_target'',
                    ''number_words_target''}"
      and "name \<notin> fst ` set (columns ds)"
  shows "feature_step sb ds F fd = Inl KeyError"
proof -
  from assms(2) have "frame_getitem ds name = Inl KeyError"
    by (simp add: frame_getitem_None map_of_eq_None_iff)
  with assms(1) show ?thesis
    by (auto simp: feature_step_def frame_getitem_def dict_getitem_def Let_def
        split: option.splits sum.splits)
qed

lemma feature_loop_KeyError:
  assumes "F \<in> set fl"
      and "name \<in> {F @ ''_source'', F @ ''_target'', ''number_punctuations_total_source'',
                    ''number_words_source'', ''number_punctuations_total_target'',
                    ''number_words_target''}"
      and "name \<notin> fst ` set (columns ds)"
  shows "feature_loop sb ds fl fd = Inl KeyError"
  using assms(1)
proof (induction fl arbitrary: fd)
  case Nil
  then show ?case by simp
next
  case (Cons G rest)
  show ?case
  proof (cases "feature_step sb ds G fd")
    case (Inl e)
    then have "e = KeyError" by (rule feature_step_error)
    with Inl show ?thesis by simp
  next
    case (Inr fd')
    have "G \<noteq> F"
      using Inr feature_step_KeyError [OF assms(2,3), of sb fd] by auto
    with Cons.prems have "F \<in> set rest" by simp
    from Cons.IH [OF this] Inr show ?thesis by simp
  qed
qed

lemma feature_loop_error: "feature_loop sb ds fl fd = Inl e \<Longrightarrow> e = KeyError"
proof (induction fl arbitrary: fd)
  case Nil
  then show ?case by simp
next
  case (Cons G rest)
  then show ?case
    by (auto split: sum.splits dest: feature_step_error)
qed

lemma feature_generation_missing_feature_column:
  assumes "F \<in> set (feature_difference_list self)"
      and "name \<in> {F @ ''_source'', F @ ''_target'', ''number_punctuations_total_source'',
                    ''number_words_source'', ''number_punctuations_total_target'',
                    ''number_words_target''}"
      and "name \<notin> fst ` set (columns (preprocessed_dataset self))"
  shows "feature_generation sb self = Inl KeyError"
  using feature_loop_KeyError
          [of F "feature_difference_list self" name "preprocessed_dataset self" sb
              "feature_dataframe self"] assms
  by (simp add: feature_generation_def)

lemma feature_generation_missing_Translation:
  assumes "''Translation'' \<notin> fst ` set (columns (preprocessed_dataset self))"
  shows "feature_generation sb self = Inl KeyError"
proof -
  from assms have "frame_getitem (preprocessed_dataset self) ''Translation'' = Inl KeyError"
    by (simp add: frame_getitem_None map_of_eq_None_iff)
  then show ?thesis
    by (auto simp: feature_generation_def split: sum.splits dest: feature_loop_error)
qed

lemma get_sample_propagates:
  fixes self :: "'v::zero DataSet"
  shows "sample (preprocessed_dataframe self) n draw_right = Inl e \<Longrightarrow>
           get_sample self n draw_right draw_source draw_target = Inl e"
    and "sample (preprocessed_dataframe self) n draw_right = Inr right \<Longrightarrow>
         sample (preprocessed_source self) n draw_source = Inl e \<Longrightarrow>
           get_sample self n draw_right draw_source draw_target = Inl e"
    and "sample (preprocessed_dataframe self) n draw_right = Inr right \<Longrightarrow>
         sample (preprocessed_source self) n draw_source = Inr source \<Longrightarrow>
         sample (preprocessed_target self) n draw_target = Inl e \<Longrightarrow>
           get_sample self n draw_right draw_source draw_target = Inl e"
    and "sample (preprocessed_dataframe self) n draw_right = Inr right \<Longrightarrow>
         sample (preprocessed_source self) n draw_source = Inr source \<Longrightarrow>
         sample (preprocessed_target self) n draw_target = Inr target \<Longrightarrow>
         concat_axis0 (reset_index right)
           (frame_setitem (concat_axis1 (reset_index source) (reset_index target)) ''Translation''
              (replicate (nrows (concat_axis1 (reset_index source) (reset_index target)))
                 (Some 0))) = Inl e \<Longrightarrow>
           get_sample self n draw_right draw_source draw_target = Inl e"
  by (simp_all add: get_sample_def Let_def)

lemma load_embeddings_propagates:
  "vstack arrays = Inl e \<Longrightarrow> load_embeddings arrays dictionary = Inl e"
  by (simp add: load_embeddings_def)

lemma token_list_embedding_propagates:
  assumes "token \<in> set token_list" and "embedding_dictionary token = Some i" and "i \<noteq> 0"
      and "array_getitem embedding_array i = Inl e"
  shows "token_list_embedding embedding_array embedding_dictionary token_list = Inl e"
  using token_list_embedding_loop_error
          [of token token_list embedding_dictionary i embedding_array e "[]"] assms
  by (simp add: token_list_embedding_def)

lemma word_embeddings_propagates:
  assumes "\<forall>x \<in> set before. \<exists>y. token_list_embedding embedding_array embedding_dictionary x = Inr y"
      and "token_list_embedding embedding_array embedding_dictionary token_list = Inl e"
  shows "word_embeddings (before @ token_list # rest) embedding_array embedding_dictionary = Inl e"
  unfolding word_embeddings_def using assms by (rule series_apply_first_error)

lemma translation_propagates:
  shows "map_of w token = None \<Longrightarrow> translation token w es esd = Inl KeyError"
    and "map_of w token = Some emb \<Longrightarrow> np_dot_transpose emb es = Inl e \<Longrightarrow>
           translation token w es esd = Inl e"
  by (simp_all add: translation_def dict_getitem_def)

lemma unique_token_set: "set (unique_token token_vector) = set (concat token_vector)"
  by (simp add: unique_token_def)

lemma create_translation_dictionary_propagates:
  shows "token \<in> set (concat tvs) \<Longrightarrow> eds token = Some i \<Longrightarrow> i \<noteq> 0 \<Longrightarrow>
         array_getitem eas i = Inl e \<Longrightarrow>
           create_translation_dictionary tvs tvt eas eds eat edt = Inl e"
    and "embedding_subset_loop eas eds (unique_token tvs) [] [] = Inr (ws, ss) \<Longrightarrow>
         token \<in> set (concat tvt) \<Longrightarrow> edt token = Some i \<Longrightarrow> i \<noteq> 0 \<Longrightarrow>
         array_getitem eat i = Inl e \<Longrightarrow>
           create_translation_dictionary tvs tvt eas eds eat edt = Inl e"
    and "embedding_subset_loop eas eds (unique_token tvs) [] [] = Inr (ws, ss) \<Longrightarrow>
         embedding_subset_loop eat edt (unique_token tvt) [] [] = Inr (wt, st) \<Longrightarrow>
         translation_loop eds (unique_token tvs) ws (map snd wt) st [] = Inl e \<Longrightarrow>
           create_translation_dictionary tvs tvt eas eds eat edt = Inl e"
    and "embedding_subset_loop eas eds (unique_token tvs) [] [] = Inr (ws, ss) \<Longrightarrow>
         embedding_subset_loop eat edt (unique_token tvt) [] [] = Inr (wt, st) \<Longrightarrow>
         translation_loop eds (unique_token tvs) ws (map snd wt) st [] = Inr tts \<Longrightarrow>
         translation_loop edt (unique_token tvt) wt (map snd ws) ss [] = Inl e \<Longrightarrow>
           create_translation_dictionary tvs tvt eas eds eat edt = Inl e"
proof -
  show "create_translation_dictionary tvs tvt eas eds eat edt = Inl e"
    if "token \<in> set (concat tvs)" "eds token = Some i" "i \<noteq> 0" "array_getitem eas i = Inl e"
    using embedding_subset_loop_error [of token "unique_token tvs" eds i eas e "[]" "[]"] that
    by (simp add: create_translation_dictionary_def unique_token_set Let_def)
  show "create_translation_dictionary tvs tvt eas eds eat edt = Inl e"
    if "embedding_subset_loop eas eds (unique_token tvs) [] [] = Inr (ws, ss)"
      "token \<in> set (concat tvt)" "edt token = Some i" "i \<noteq> 0" "array_getitem eat i = Inl e"
    using embedding_subset_loop_error [of token "unique_token tvt" edt i eat e "[]" "[]"] that
    by (simp add: create_translation_dictionary_def unique_token_set Let_def)
  show "create_translation_dictionary tvs tvt eas eds eat edt = Inl e"
    if "embedding_subset_loop eas eds (unique_token tvs) [] [] = Inr (ws, ss)"
      "embedding_subset_loop eat edt (unique_token tvt) [] [] = Inr (wt, st)"
      "translation_loop eds (unique_token tvs) ws (map snd wt) st [] = Inl e"
    using that by (simp add: create_translation_dictionary_def Let_def)
  show "create_translation_dictionary tvs tvt eas eds eat edt = Inl e"
    if "embedding_subset_loop eas eds (unique_token tvs) [] [] = Inr (ws, ss)"
      "embedding_subset_loop eat edt (unique_token tvt) [] [] = Inr (wt, st)"
      "translation_loop eds (unique_token tvs) ws (map snd wt) st [] = Inr tts"
      "translation_loop edt (unique_token tvt) wt (map snd ws) ss [] = Inl e"
    using that by (simp add: create_translation_dictionary_def Let_def)
qed

lemma load_embeddings_error_iff:
  "load_embeddings arrays dictionary = Inl e \<longleftrightarrow> vstack arrays = Inl e"
  by (simp add: load_embeddings_def split: sum.splits)

lemma get_sample_error_iff:
  fixes self :: "'v::zero DataSet"
  shows "get_sample self n draw_right draw_source draw_target = Inl e \<longleftrightarrow>
     sample (preprocessed_dataframe self) n draw_right = Inl e \<or>
     (\<exists>right. sample (preprocessed_dataframe self) n draw_right = Inr right \<and>
        (sample (preprocessed_source self) n draw_source = Inl e \<or>
         (\<exists>source. sample (preprocessed_source self) n draw_source = Inr source \<and>
            (sample (preprocessed_target self) n draw_target = Inl e \<or>
             (\<exists>target. sample (preprocessed_target self) n draw_target = Inr target \<and>
                concat_axis0 (reset_index right)
                  (frame_setitem (concat_axis1 (reset_index source) (reset_index target))
                     ''Translation''
                     (replicate (nrows (concat_axis1 (reset_index source) (reset_index target)))
                        (Some 0))) = Inl e)))))"
  by (simp add: get_sample_def Let_def split: sum.splits)

lemma create_translation_dictionary_error_iff:
  "create_translation_dictionary tvs tvt eas eds eat edt = Inl e \<longleftrightarrow>
     embedding_subset_loop eas eds (unique_token tvs) [] [] = Inl e \<or>
     (\<exists>ws ss. embedding_subset_loop eas eds (unique_token tvs) [] [] = Inr (ws, ss) \<and>
        (embedding_subset_loop eat edt (unique_token tvt) [] [] = Inl e \<or>
         (\<exists>wt st. embedding_subset_loop eat edt (unique_token tvt) [] [] = Inr (wt, st) \<and>
            (translation_loop eds (unique_token tvs) ws (map snd wt) st [] = Inl e \<or>
             (\<exists>tts. translation_loop eds (unique_token tvs) ws (map snd wt) st [] = Inr tts \<and>
                translation_loop edt (unique_token tvt) wt (map snd ws) ss [] = Inl e)))))"
  by (simp add: create_translation_dictionary_def Let_def split: sum.splits prod.splits)

lemma suffix_source_target_Translation:
  "F @ ''_source'' \<noteq> ''Translation''" "F @ ''_target'' \<noteq> ''Translation''"
proof -
  show "F @ ''_source'' \<noteq> ''Translation''"
  proof
    assume "F @ ''_source'' = ''Translation''"
    then have "rev (F @ ''_source'') = rev ''Translation''" by simp
    then show False by simp
  qed
  show "F @ ''_target'' \<noteq> ''Translation''"
  proof
    assume "F @ ''_target'' = ''Translation''"
    then have "rev (F @ ''_target'') = rev ''Translation''" by simp
    then show False by simp
  qed
qed

lemma example_preprocessed_without_Translation:
  "''Translation'' \<notin> fst ` set (butlast (columns example_preprocessed))"
  by (auto simp: example_preprocessed_def suffix_source_target_Translation [symmetric])

theorem translate_words_recovers:
  "translate_words [[''hund'', ''qwertz'']] [''hund'' \<mapsto> ''dog''] = Inr [[''dog'']]"
  by (simp add: translate_words_def calculate_translations_def dict_getitem_def)

text \<open>
  C5 (amended): the program has no failure-recovery logic beyond ordinary exception
  propagation, with one exception: \<open>translate_words\<close> catches the \<open>KeyError\<close> of a word that
  the translation dictionary lacks and skips the word, so it always returns, with the
  translations of the words that have an entry, in their order. In every other operation
  an exception of an underlying lookup or library call propagates to the caller
  unhandled: \<open>load_embeddings\<close> raises exactly what \<open>np.vstack\<close> raises;
  \<open>word_embeddings\<close> and the loops of \<open>create_translation_dictionary\<close> raise the
  \<open>IndexError\<close> of an embedding index out of range, \<open>translation\<close> the \<open>ValueError\<close> of
  \<open>np.dot\<close>, and \<open>create_translation_dictionary\<close> raises exactly what its four loops
  raise; \<open>get_sample\<close> raises exactly what its three \<open>sample\<close> calls and its last
  \<open>pd.concat\<close> raise; \<open>feature_generation\<close> raises the \<open>KeyError\<close> of any column it looks
  up and does not find.
\<close>

theorem translate_words_skips_missing_words:
  fixes self :: "'v::zero DataSet"
    and incomplete :: "'c::plus FeatureGeneration" and unlabelled :: "'c FeatureGeneration"
  shows
    "translate_words token_vector translation_dictionary =
       Inr (map (List.map_filter translation_dictionary) token_vector) \<and>
     (load_embeddings arrays dictionary = Inl e_vstack \<longleftrightarrow> vstack arrays = Inl e_vstack) \<and>
     (token \<in> set token_list \<and> embedding_dictionary token = Some i \<and> i \<noteq> 0 \<and>
      array_getitem embedding_array i = Inl e_index \<longrightarrow>
        token_list_embedding embedding_array embedding_dictionary token_list = Inl e_index \<and>
        embedding_subset_loop embedding_array embedding_dictionary token_list
          word_embedding_dictionary embedding_subset_dictionary = Inl e_index) \<and>
     ((\<forall>x \<in> set before. \<exists>y. token_list_embedding embedding_array embedding_dictionary x = Inr y) \<and>
      token_list_embedding embedding_array embedding_dictionary token_list = Inl e_index \<longrightarrow>
        word_embeddings (before @ token_list # rest) embedding_array embedding_dictionary =
          Inl e_index) \<and>
     (map_of embeddings_source source_token = Some norm_src_word_emb \<and>
      np_dot_transpose norm_src_word_emb embedding_subset_target = Inl e_dot \<longrightarrow>
        translation source_token embeddings_source embedding_subset_target
          embedding_subset_dictionary_target = Inl e_dot) \<and>
     (source_token \<in> set source_tokens \<and> dictionary_source source_token = Some j \<and> j \<noteq> 0 \<and>
      translation source_token embeddings_source embedding_subset_target
        embedding_subset_dictionary_target = Inl e_dot \<longrightarrow>
        (\<exists>token' e'. token' \<in> set source_tokens \<and>
           translation token' embeddings_source embedding_subset_target
             embedding_subset_dictionary_target = Inl e' \<and>
           translation_loop dictionary_source source_tokens embeddings_source
             embedding_subset_target embedding_subset_dictionary_target translation_to = Inl e')) \<and>
     (create_translation_dictionary tvs tvt eas eds eat edt = Inl e_create \<longleftrightarrow>
        embedding_subset_loop eas eds (unique_token tvs) [] [] = Inl e_create \<or>
        (\<exists>ws ss. embedding_subset_loop eas eds (unique_token tvs) [] [] = Inr (ws, ss) \<and>
           (embedding_subset_loop eat edt (unique_token tvt) [] [] = Inl e_create \<or>
            (\<exists>wt st. embedding_subset_loop eat edt (unique_token tvt) [] [] = Inr (wt, st) \<and>
               (translation_loop eds (unique_token tvs) ws (map snd wt) st [] = Inl e_create \<or>
                (\<exists>tts. translation_loop eds (unique_token tvs) ws (map snd wt) st [] = Inr tts \<and>
                   translation_loop edt (unique_token tvt) wt (map snd ws) ss [] =
                     Inl e_create)))))) \<and>
     (get_sample self n draw_right draw_source draw_target = Inl e_sample \<longleftrightarrow>
        sample (preprocessed_dataframe self) n draw_right = Inl e_sample \<or>
        (\<exists>right. sample (preprocessed_dataframe self) n draw_right = Inr right \<and>
           (sample (preprocessed_source self) n draw_source = Inl e_sample \<or>
            (\<exists>source. sample (preprocessed_source self) n draw_source = Inr source \<and>
               (sample (preprocessed_target self) n draw_target = Inl e_sample \<or>
                (\<exists>target. sample (preprocessed_target self) n draw_target = Inr target \<and>
                   concat_axis0 (reset_index right)
                     (frame_setitem (concat_axis1 (reset_index source) (reset_index target))
                        ''Translation''
                        (replicate
                           (nrows (concat_axis1 (reset_index source) (reset_index target)))
                           (Some 0))) = Inl e_sample)))))) \<and>
     (F \<in> set (feature_difference_list incomplete) \<and>
      name \<in> {F @ ''_source'', F @ ''_target'', ''number_punctuations_total_source'',
               ''number_words_source'', ''number_punctuations_total_target'',
               ''number_words_target''} \<and>
      name \<notin> fst ` set (columns (preprocessed_dataset incomplete)) \<longrightarrow>
        feature_generation sb incomplete = Inl KeyError) \<and>
     (''Translation'' \<notin> fst ` set (columns (preprocessed_dataset unlabelled)) \<longrightarrow>
        feature_generation sb unlabelled = Inl KeyError)"
proof (intro conjI impI)
  show "translate_words token_vector translation_dictionary =
          Inr (map (List.map_filter translation_dictionary) token_vector)"
    by (simp add: translate_words_def calculate_translations_def
        calculate_translations_loop_skips series_apply_Inr)
  show "load_embeddings arrays dictionary = Inl e_vstack \<longleftrightarrow> vstack arrays = Inl e_vstack"
    by (rule load_embeddings_error_iff)
next
  assume a: "token \<in> set token_list \<and> embedding_dictionary token = Some i \<and> i \<noteq> 0 \<and>
      array_getitem embedding_array i = Inl e_index"
  then show "token_list_embedding embedding_array embedding_dictionary token_list = Inl e_index"
    using token_list_embedding_propagates
            [of token token_list embedding_dictionary i embedding_array e_index] by blast
  from a show "embedding_subset_loop embedding_array embedding_dictionary token_list
          word_embedding_dictionary embedding_subset_dictionary = Inl e_index"
    using embedding_subset_loop_error
            [of token token_list embedding_dictionary i embedding_array e_index] by blast
next
  assume "(\<forall>x \<in> set before. \<exists>y. token_list_embedding embedding_array embedding_dictionary x = Inr y) \<and>
      token_list_embedding embedding_array embedding_dictionary token_list = Inl e_index"
  then show "word_embeddings (before @ token_list # rest) embedding_array embedding_dictionary =
          Inl e_index"
    using word_embeddings_propagates
            [of before embedding_array embedding_dictionary token_list e_index rest] by blast
next
  assume "map_of embeddings_source source_token = Some norm_src_word_emb \<and>
      np_dot_transpose norm_src_word_emb embedding_subset_target = Inl e_dot"
  then show "translation source_token embeddings_source embedding_subset_target
          embedding_subset_dictionary_target = Inl e_dot"
    by (simp add: translation_propagates(2))
next
  assume "source_token \<in> set source_tokens \<and> dictionary_source source_token = Some j \<and> j \<noteq> 0 \<and>
      translation source_token embeddings_source embedding_subset_target
        embedding_subset_dictionary_target = Inl e_dot"
  then show "\<exists>token' e'. token' \<in> set source_tokens \<and>
           translation token' embeddings_source embedding_subset_target
             embedding_subset_dictionary_target = Inl e' \<and>
           translation_loop dictionary_source source_tokens embeddings_source
             embedding_subset_target embedding_subset_dictionary_target translation_to = Inl e'"
    using translation_loop_error
            [of source_token source_tokens dictionary_source j embeddings_source
                embedding_subset_target embedding_subset_dictionary_target e_dot translation_to]
    by blast
next
  show "create_translation_dictionary tvs tvt eas eds eat edt = Inl e_create \<longleftrightarrow>
        embedding_subset_loop eas eds (unique_token tvs) [] [] = Inl e_create \<or>
        (\<exists>ws ss. embedding_subset_loop eas eds (unique_token tvs) [] [] = Inr (ws, ss) \<and>
           (embedding_subset_loop eat edt (unique_token tvt) [] [] = Inl e_create \<or>
            (\<exists>wt st. embedding_subset_loop eat edt (unique_token tvt) [] [] = Inr (wt, st) \<and>
               (translation_loop eds (unique_token tvs) ws (map snd wt) st [] = Inl e_create \<or>
                (\<exists>tts. translation_loop eds (unique_token tvs) ws (map snd wt) st [] = Inr tts \<and>
                   translation_loop edt (unique_token tvt) wt (map snd ws) ss [] =
                     Inl e_create)))))"
    by (rule create_translation_dictionary_error_iff)
  show "get_sample self n draw_right draw_source draw_target = Inl e_sample \<longleftrightarrow>
        sample (preprocessed_dataframe self) n draw_right = Inl e_sample \<or>
        (\<exists>right. sample (preprocessed_dataframe self) n draw_right = Inr right \<and>
           (sample (preprocessed_source self) n draw_source = Inl e_sample \<or>
            (\<exists>source. sample (preprocessed_source self) n draw_source = Inr source \<and>
               (sample (preprocessed_target self) n draw_target = Inl e_sample \<or>
                (\<exists>target. sample (preprocessed_target self) n draw_target = Inr target \<and>
                   concat_axis0 (reset_index right)
                     (frame_setitem (concat_axis1 (reset_index source) (reset_index target))
                        ''Translation''
                        (replicate
                           (nrows (concat_axis1 (reset_index source) (reset_index target)))
                           (Some 0))) = Inl e_sample)))))"
    by (rule get_sample_error_iff)
next
  assume "F \<in> set (feature_difference_list incomplete) \<and>
      name \<in> {F @ ''_source'', F @ ''_target'', ''number_punctuations_total_source'',
               ''number_words_source'', ''number_punctuations_total_target'',
               ''number_words_target''} \<and>
      name \<notin> fst ` set (columns (preprocessed_dataset incomplete))"
  then show "feature_generation sb incomplete = Inl KeyError"
    using feature_generation_missing_feature_column [of F incomplete name sb] by blast
next
  assume "''Translation'' \<notin> fst ` set (columns (preprocessed_dataset unlabelled))"
  then show "feature_generation sb unlabelled = Inl KeyError"
    by (rule feature_generation_missing_Translation)
qed

theorem translate_words_skips_missing_words_witness:
  "translate_words [[''hund'', ''qwertz''], [''katze'']]
     [''hund'' \<mapsto> ''dog'', ''katze'' \<mapsto> ''cat''] = Inr [[''dog''], [''cat'']] \<and>
   load_embeddings [[1, 0], [1]] (Map.empty :: string \<rightharpoonup> int) = Inl ValueError \<and>
   token_list_embedding [[1, 0], [0, 1]] [''cat'' \<mapsto> 2] [''cat''] = Inl IndexError \<and>
   word_embeddings [[''dog''], [''cat'']] [[1, 0], [0, 1]] [''cat'' \<mapsto> 2] = Inl IndexError \<and>
   translation ''hund'' [(''hund'', [1, 0])] [[1, 0, 0]] [''dog''] = Inl ValueError \<and>
   translation_loop [''hund'' \<mapsto> 1] [''hund''] [(''hund'', [1, 0])] [[1, 0, 0]] [''dog''] [] =
     Inl ValueError \<and>
   create_translation_dictionary [[''hund'']] [[''dog'']] [[1, 0], [0, 1]] [''hund'' \<mapsto> 1]
     [[1, 0, 0], [0, 1, 0]] [''dog'' \<mapsto> 1] = Inl ValueError \<and>
   get_sample
     (example_DataSet\<lparr>preprocessed_source :=
        \<lparr>index = [0], columns = [(''number_words_source'', [Some 4])]\<rparr>\<rparr>)
     2 [0, 1] [0, 1] [0, 1] = Inl ValueError \<and>
   feature_generation sentence_based_spec
     (FeatureGeneration_init
        \<lparr>index = [0], columns = [(''number_words_source'', [3]), (''Translation'', [1])]\<rparr>) =
     Inl KeyError \<and>
   feature_generation sentence_based_spec
     (FeatureGeneration_init
        (example_preprocessed\<lparr>columns := butlast (columns example_preprocessed)\<rparr>)) =
     Inl KeyError"
proof -
  note t = translate_words_skips_missing_words
    [where token_vector = "[[''hund'', ''qwertz''], [''katze'']]"
       and translation_dictionary = "[''hund'' \<mapsto> ''dog'', ''katze'' \<mapsto> ''cat'']"
       and arrays = "[[1, 0], [1]]" and dictionary = "Map.empty :: string \<rightharpoonup> int"
       and e_vstack = ValueError
       and token = "''cat''" and token_list = "[''cat'']"
       and embedding_dictionary = "[''cat'' \<mapsto> 2]" and i = 2
       and embedding_array = "[[1, 0], [0, 1]]" and e_index = IndexError
       and word_embedding_dictionary = "[]" and embedding_subset_dictionary = "[]"
       and before = "[[''dog'']]" and rest = "[]"
       and embeddings_source = "[(''hund'', [1, 0])]" and source_token = "''hund''"
       and norm_src_word_emb = "[1, 0]" and embedding_subset_target = "[[1, 0, 0]]"
       and e_dot = ValueError and embedding_subset_dictionary_target = "[''dog'']"
       and source_tokens = "[''hund'']" and dictionary_source = "[''hund'' \<mapsto> 1]" and j = 1
       and translation_to = "[]"
       and tvs = "[[''hund'']]" and tvt = "[[''dog'']]" and eas = "[[1, 0], [0, 1]]"
       and eds = "[''hund'' \<mapsto> 1]" and eat = "[[1, 0, 0], [0, 1, 0]]"
       and edt = "[''dog'' \<mapsto> 1]" and e_create = ValueError
       and self = "example_DataSet\<lparr>preprocessed_source :=
                     \<lparr>index = [0], columns = [(''number_words_source'', [Some 4])]\<rparr>\<rparr>"
       and n = 2 and draw_right = "[0, 1]" and draw_source = "[0, 1]" and draw_target = "[0, 1]"
       and e_sample = ValueError
       and incomplete = "FeatureGeneration_init
          \<lparr>index = [0], columns = [(''number_words_source'', [3]), (''Translation'', [1])]\<rparr>"
       and F = "''number_words''" and name = "''number_words_target''"
       and sb = sentence_based_spec
       and unlabelled = "FeatureGeneration_init
          (example_preprocessed\<lparr>columns := butlast (columns example_preprocessed)\<rparr>)"]
  note c1 = t [THEN conjunct1] and t1 = t [THEN conjunct2]
  note c2 = t1 [THEN conjunct1] and t2 = t1 [THEN conjunct2]
  note c3 = t2 [THEN conjunct1] and t3 = t2 [THEN conjunct2]
  note c4 = t3 [THEN conjunct1] and t4 = t3 [THEN conjunct2]
  note c5 = t4 [THEN conjunct1] and t5 = t4 [THEN conjunct2]
  note c6 = t5 [THEN conjunct1] and t6 = t5 [THEN conjunct2]
  note c7 = t6 [THEN conjunct1] and t7 = t6 [THEN conjunct2]
  note c8 = t7 [THEN conjunct1] and t8 = t7 [THEN conjunct2]
  note c9 = t8 [THEN conjunct1] and c10 = t8 [THEN conjunct2]
  have w1: "translate_words [[''hund'', ''qwertz''], [''katze'']]
     [''hund'' \<mapsto> ''dog'', ''katze'' \<mapsto> ''cat''] = Inr [[''dog''], [''cat'']]"
    using c1 by (simp add: List.map_filter_simps)
  have w2: "load_embeddings [[1, 0], [1]] (Map.empty :: string \<rightharpoonup> int) = Inl ValueError"
    using c2 by (simp add: vstack_def)
  have w3: "token_list_embedding [[1, 0], [0, 1]] [''cat'' \<mapsto> 2] [''cat''] = Inl IndexError"
    using c3 by (simp add: array_getitem_def)
  have "token_list_embedding [[1, 0], [0, 1]] [''cat'' \<mapsto> 2] [''dog''] = Inr empty_frame"
    by (simp add: token_list_embedding_def DataFrame_of_dict_def)
  then have w4: "word_embeddings [[''dog''], [''cat'']] [[1, 0], [0, 1]] [''cat'' \<mapsto> 2] =
      Inl IndexError"
    using c4 w3 by simp
  have w5: "translation ''hund'' [(''hund'', [1, 0])] [[1, 0, 0]] [''dog''] = Inl ValueError"
    using c5 by (simp add: np_dot_transpose_def)
  have w6: "translation_loop [''hund'' \<mapsto> 1] [''hund''] [(''hund'', [1, 0])] [[1, 0, 0]] [''dog''] [] =
     Inl ValueError"
    using c6 w5 by simp
  have l1: "embedding_subset_loop [[1, 0], [0, 1]] [''hund'' \<mapsto> 1] (unique_token [[''hund'']]) [] [] =
      Inr ([(''hund'', [0, 1])], [''hund''])"
    by (simp add: unique_token_def array_getitem_def)
  have l2: "embedding_subset_loop [[1, 0, 0], [0, 1, 0]] [''dog'' \<mapsto> 1] (unique_token [[''dog'']]) [] [] =
      Inr ([(''dog'', [0, 1, 0])], [''dog''])"
    by (simp add: unique_token_def array_getitem_def)
  have l3: "translation_loop [''hund'' \<mapsto> 1] (unique_token [[''hund'']]) [(''hund'', [0, 1])]
              (map snd [(''dog'', [0, 1, 0])]) [''dog''] [] = Inl ValueError"
    by (simp add: unique_token_def translation_def dict_getitem_def np_dot_transpose_def)
  have w7: "create_translation_dictionary [[''hund'']] [[''dog'']] [[1, 0], [0, 1]] [''hund'' \<mapsto> 1]
     [[1, 0, 0], [0, 1, 0]] [''dog'' \<mapsto> 1] = Inl ValueError"
    unfolding c7 l1 l2 using l3 by simp
  have s1: "\<exists>right. sample (preprocessed_dataframe
       (example_DataSet\<lparr>preprocessed_source :=
          \<lparr>index = [0], columns = [(''number_words_source'', [Some 4])]\<rparr>\<rparr>)) 2 [0, 1] = Inr right"
    by (simp add: sample_def example_DataSet_def nrows_def)
  have s2: "sample (preprocessed_source
       (example_DataSet\<lparr>preprocessed_source :=
          \<lparr>index = [0], columns = [(''number_words_source'', [Some 4])]\<rparr>\<rparr>)) 2 [0, 1] =
       Inl ValueError"
    by (simp add: sample_def nrows_def)
  have w8: "get_sample
     (example_DataSet\<lparr>preprocessed_source :=
        \<lparr>index = [0], columns = [(''number_words_source'', [Some 4])]\<rparr>\<rparr>)
     2 [0, 1] [0, 1] [0, 1] = Inl ValueError"
    unfolding c8 using s1 s2 by blast
  have "''number_words'' \<in> set (feature_difference_list (FeatureGeneration_init
          \<lparr>index = [0], columns = [(''number_words_source'', [3 :: real]), (''Translation'', [1])]\<rparr>))"
    by (simp add: FeatureGeneration_init_def initial_normalizer_stems(2))
  then have w9: "feature_generation sentence_based_spec
     (FeatureGeneration_init
        \<lparr>index = [0], columns = [(''number_words_source'', [3]), (''Translation'', [1])]\<rparr>) =
     Inl KeyError"
    using c9 by (simp add: FeatureGeneration_init_def)
  have w10: "feature_generation sentence_based_spec
     (FeatureGeneration_init
        (example_preprocessed\<lparr>columns := butlast (columns example_preprocessed)\<rparr>)) =
     Inl KeyError"
    using c10 example_preprocessed_without_Translation by (simp add: FeatureGeneration_init_def)
  show ?thesis
    by (intro conjI) (rule w1 w2 w3 w4 w5 w6 w7 w8 w9 w10)+
qed

end
